theory Spec2Isabelle
  imports Main
begin

section \<open>JavaScript values, thrown values and message tests\<close>

text \<open>
  The values a caller stores are JSON-like JavaScript values. Numbers are restricted to
  integers; \<open>truthy\<close> is the coercion that \<^verbatim>\<open>if (data)\<close> applies.
\<close>

datatype jsval =
    JUndefined
  | JNull
  | JBool bool
  | JNum int
  | JStr string
  | JArr "jsval list"
  | JObj "(string \<times> jsval) list"

fun truthy :: "jsval \<Rightarrow> bool" where
  "truthy JUndefined = False"
| "truthy JNull = False"
| "truthy (JBool b) = b"
| "truthy (JNum n) = (n \<noteq> 0)"
| "truthy (JStr s) = (s \<noteq> [])"
| "truthy (JArr xs) = True"
| "truthy (JObj kvs) = True"

text \<open>
  What a rejected client call throws: an \<^verbatim>\<open>Error\<close> instance with its message, some
  other non-null value with the string found under \<^verbatim>\<open>.message\<close> (empty when there is
  none), or \<^verbatim>\<open>null\<close>/\<^verbatim>\<open>undefined\<close>.
\<close>

datatype thrown = ErrorObj string | Other string | Nullish

fun starts_with :: "string \<Rightarrow> string \<Rightarrow> bool" where
  "starts_with cs [] = True"
| "starts_with [] (p # ps) = False"
| "starts_with (c # cs) (p # ps) = (c = p \<and> starts_with cs ps)"

text \<open>\<^verbatim>\<open>String.prototype.includes\<close>.\<close>

fun str_includes :: "string \<Rightarrow> string \<Rightarrow> bool" where
  "str_includes [] sub = (sub = [])"
| "str_includes (c # cs) sub = (starts_with (c # cs) sub \<or> str_includes cs sub)"

text \<open>
  The four message tests of \<^verbatim>\<open>redis-cache.ts\<close>; each starts with \<^verbatim>\<open>message &&\<close>,
  which fails on the empty string.
\<close>

definition noperm_msg :: "string \<Rightarrow> bool" where
  "noperm_msg m = (m \<noteq> [] \<and> (str_includes m ''NOPERM'' \<or> str_includes m ''no permissions''))"

definition write_denied_msg :: "string \<Rightarrow> bool" where
  "write_denied_msg m = (m \<noteq> [] \<and>
     (str_includes m ''NOPERM'' \<or> str_includes m ''no permissions'' \<or> str_includes m ''readonly''))"

definition connection_msg :: "string \<Rightarrow> bool" where
  "connection_msg m = (m \<noteq> [] \<and>
     (str_includes m ''connect'' \<or> str_includes m ''network'' \<or> str_includes m ''timeout''))"

definition keys_noperm_msg :: "string \<Rightarrow> bool" where
  "keys_noperm_msg m = (m \<noteq> [] \<and> str_includes m ''NOPERM'' \<and> str_includes m ''keys'')"

text \<open>\<^verbatim>\<open>error instanceof Error && error.message && P(error.message)\<close>, as in get, set,
  delete, clear and getStatus.\<close>

fun error_with :: "(string \<Rightarrow> bool) \<Rightarrow> thrown \<Rightarrow> bool" where
  "error_with P (ErrorObj m) = P m"
| "error_with P (Other m) = False"
| "error_with P Nullish = False"

text \<open>
  The probe reads \<^verbatim>\<open>e.message\<close> without the \<^verbatim>\<open>instanceof\<close> test; on a thrown
  \<^verbatim>\<open>null\<close> or \<^verbatim>\<open>undefined\<close> that property access itself throws a TypeError.
\<close>

fun message_of :: "thrown \<Rightarrow> thrown + string" where
  "message_of (ErrorObj m) = Inr m"
| "message_of (Other m) = Inr m"
| "message_of Nullish = Inl (ErrorObj ''Cannot read properties of null'')"

section \<open>The in-process Map\<close>

text \<open>A JavaScript \<^verbatim>\<open>Map\<close> with string keys, in insertion order.\<close>

type_synonym 'v jsmap = "(string \<times> 'v) list"

definition Map_has :: "'v jsmap \<Rightarrow> string \<Rightarrow> bool" where
  "Map_has m k = (map_of m k \<noteq> None)"

fun Map_set :: "'v jsmap \<Rightarrow> string \<Rightarrow> 'v \<Rightarrow> 'v jsmap" where
  "Map_set [] k v = [(k, v)]"
| "Map_set (p # ps) k v = (if fst p = k then (k, v) # ps else p # Map_set ps k v)"

definition Map_delete :: "'v jsmap \<Rightarrow> string \<Rightarrow> 'v jsmap" where
  "Map_delete m k = filter (\<lambda>p. fst p \<noteq> k) m"

definition Map_size :: "'v jsmap \<Rightarrow> nat" where
  "Map_size m = length m"

text \<open>\<^verbatim>\<open>memoryCache.get(key)\<close>: \<^verbatim>\<open>undefined\<close> for a key that is not there.\<close>

definition Map_get :: "jsval jsmap \<Rightarrow> string \<Rightarrow> jsval" where
  "Map_get m k = (case map_of m k of Some v \<Rightarrow> v | None \<Rightarrow> JUndefined)"

section \<open>The persistent tier client\<close>

text \<open>
  The Upstash client is an external collaborator. It is a parameter of the model: a
  deterministic machine over a state of any type \<open>'r\<close>, with one transition per client
  method used by the cache; \<open>Inl\<close> is a rejected call with the value thrown.
\<close>

record 'r redis =
  redis_get :: "'r \<Rightarrow> string \<Rightarrow> (thrown + jsval) \<times> 'r"
  redis_exists :: "'r \<Rightarrow> string \<Rightarrow> (thrown + int) \<times> 'r"
  redis_keys :: "'r \<Rightarrow> string \<Rightarrow> (thrown + string list) \<times> 'r"
  redis_set :: "'r \<Rightarrow> string \<Rightarrow> jsval \<Rightarrow> int \<Rightarrow> (thrown + unit) \<times> 'r"
  redis_del :: "'r \<Rightarrow> string list \<Rightarrow> (thrown + int) \<times> 'r"

text \<open>The calls issued to the client, recorded in order.\<close>

datatype cmd =
    GET string
  | EXISTS string
  | KEYS string
  | SET string jsval int
  | DEL "string list"

section \<open>RedisCache (src/lib/redis-cache.ts)\<close>

text \<open>
  The fields of the class, the module-level \<^verbatim>\<open>memoryCache\<close>, the state of the client
  and the log of calls issued to it. Every method runs to completion before the next one
  starts, the clock reading \<^verbatim>\<open>Date.now()\<close> is an argument, and console output is
  not part of the state. A method returns its result with the new state; none of them lets
  a rejection of the client escape, so none has an error result.
\<close>

record 'r RedisCache =
  prefix :: string
  defaultTTL :: int
  isRedisAvailable :: bool
  isReadOnly :: bool
  keysCommandAllowed :: bool
  getCommandAllowed :: bool
  lastConnectionCheck :: int
  memoryCache :: "jsval jsmap"
  backend :: 'r
  calls :: "cmd list"

definition connectionCheckInterval :: int where
  "connectionCheckInterval = 60000"

definition getFullKey :: "'r RedisCache \<Rightarrow> string \<Rightarrow> string" where
  "getFullKey s key = prefix s @ key"

definition call_get :: "'r redis \<Rightarrow> 'r RedisCache \<Rightarrow> string \<Rightarrow> (thrown + jsval) \<times> 'r RedisCache" where
  "call_get rd s k = (case redis_get rd (backend s) k of
     (res, b) \<Rightarrow> (res, s\<lparr>backend := b, calls := calls s @ [GET k]\<rparr>))"

definition call_exists :: "'r redis \<Rightarrow> 'r RedisCache \<Rightarrow> string \<Rightarrow> (thrown + int) \<times> 'r RedisCache" where
  "call_exists rd s k = (case redis_exists rd (backend s) k of
     (res, b) \<Rightarrow> (res, s\<lparr>backend := b, calls := calls s @ [EXISTS k]\<rparr>))"

definition call_keys :: "'r redis \<Rightarrow> 'r RedisCache \<Rightarrow> string \<Rightarrow> (thrown + string list) \<times> 'r RedisCache" where
  "call_keys rd s p = (case redis_keys rd (backend s) p of
     (res, b) \<Rightarrow> (res, s\<lparr>backend := b, calls := calls s @ [KEYS p]\<rparr>))"

definition call_set :: "'r redis \<Rightarrow> 'r RedisCache \<Rightarrow> string \<Rightarrow> jsval \<Rightarrow> int \<Rightarrow> (thrown + unit) \<times> 'r RedisCache" where
  "call_set rd s k v ex = (case redis_set rd (backend s) k v ex of
     (res, b) \<Rightarrow> (res, s\<lparr>backend := b, calls := calls s @ [SET k v ex]\<rparr>))"

definition call_del :: "'r redis \<Rightarrow> 'r RedisCache \<Rightarrow> string list \<Rightarrow> (thrown + int) \<times> 'r RedisCache" where
  "call_del rd s ks = (case redis_del rd (backend s) ks of
     (res, b) \<Rightarrow> (res, s\<lparr>backend := b, calls := calls s @ [DEL ks]\<rparr>))"

subsection \<open>checkRedisConnection\<close>

text \<open>
  Each of the four inner try/catch blocks is one step. A step ends in \<open>Inl\<close> when its
  catch handler itself throws (the \<^verbatim>\<open>.message\<close> access on a thrown null), which the
  outer catch then receives. The browser-only notification (CustomEvent, localStorage)
  does not touch the cache and is left out.
\<close>

type_synonym 'r step = "(thrown \<times> 'r RedisCache) + 'r RedisCache"

definition probe_read :: "'r redis \<Rightarrow> 'r RedisCache \<Rightarrow> 'r step" where
  "probe_read rd s =
     (case call_get rd s (prefix s @ ''_connection_test_readonly'') of
        (Inr data, s1) \<Rightarrow> Inr (s1\<lparr>getCommandAllowed := True, isRedisAvailable := True\<rparr>)
      | (Inl getError, s1) \<Rightarrow>
          (case message_of getError of
             Inl t \<Rightarrow> Inl (t, s1)
           | Inr m \<Rightarrow>
               if noperm_msg m
               then Inr (s1\<lparr>getCommandAllowed := False, isRedisAvailable := False\<rparr>)
               else Inr (s1\<lparr>getCommandAllowed := True, isRedisAvailable := True\<rparr>)))"

definition probe_exists :: "'r redis \<Rightarrow> 'r RedisCache \<Rightarrow> 'r step" where
  "probe_exists rd s =
     (if isRedisAvailable s
      then (case call_exists rd s (prefix s @ ''_connection_test_readonly'') of
              (Inr n, s1) \<Rightarrow> Inr s1
            | (Inl existsError, s1) \<Rightarrow>
                (case message_of existsError of
                   Inl t \<Rightarrow> Inl (t, s1)
                 | Inr m \<Rightarrow> Inr s1))
      else Inr s)"

definition probe_keys :: "'r redis \<Rightarrow> 'r RedisCache \<Rightarrow> 'r step" where
  "probe_keys rd s =
     (case call_keys rd s (prefix s @ ''_test_keys_*'') of
        (Inr ks, s1) \<Rightarrow> Inr (s1\<lparr>keysCommandAllowed := True\<rparr>)
      | (Inl keysError, s1) \<Rightarrow>
          (case message_of keysError of
             Inl t \<Rightarrow> Inl (t, s1)
           | Inr m \<Rightarrow>
               if noperm_msg m then Inr (s1\<lparr>keysCommandAllowed := False\<rparr>) else Inr s1))"

definition probe_write_failed :: "thrown \<Rightarrow> 'r RedisCache \<Rightarrow> 'r step" where
  "probe_write_failed writeError s =
     (case message_of writeError of
        Inl t \<Rightarrow> Inl (t, s)
      | Inr m \<Rightarrow>
          if write_denied_msg m then Inr (s\<lparr>isReadOnly := True\<rparr>) else Inr (s\<lparr>isReadOnly := True\<rparr>))"

definition probe_write :: "'r redis \<Rightarrow> 'r RedisCache \<Rightarrow> 'r step" where
  "probe_write rd s =
     (case call_set rd s (prefix s @ ''_connection_test_write'') (JStr ''test'') 10 of
        (Inl writeError, s1) \<Rightarrow> probe_write_failed writeError s1
      | (Inr u, s1) \<Rightarrow>
          (case call_del rd s1 [prefix s @ ''_connection_test_write''] of
             (Inl writeError, s2) \<Rightarrow> probe_write_failed writeError s2
           | (Inr n, s2) \<Rightarrow> Inr (s2\<lparr>isReadOnly := False\<rparr>)))"

text \<open>The body of the outer try.\<close>

definition probe_body :: "'r redis \<Rightarrow> 'r RedisCache \<Rightarrow> 'r step" where
  "probe_body rd s =
     (case probe_read rd s of
        Inl x \<Rightarrow> Inl x
      | Inr s1 \<Rightarrow>
          (case probe_exists rd s1 of
             Inl x \<Rightarrow> Inl x
           | Inr s2 \<Rightarrow>
               (case probe_keys rd s2 of
                  Inl x \<Rightarrow> Inl x
                | Inr s3 \<Rightarrow> probe_write rd s3)))"

text \<open>The outer catch: "complete connection failure".\<close>

definition connection_failed :: "'r RedisCache \<Rightarrow> 'r RedisCache" where
  "connection_failed s =
     s\<lparr>isRedisAvailable := False, isReadOnly := True,
       keysCommandAllowed := False, getCommandAllowed := False\<rparr>"

text \<open>The object returned: available, readOnly, keysCommandAllowed, getCommandAllowed.\<close>

definition flags :: "'r RedisCache \<Rightarrow> bool \<times> bool \<times> bool \<times> bool" where
  "flags s = (isRedisAvailable s, isReadOnly s, keysCommandAllowed s, getCommandAllowed s)"

definition checkRedisConnection ::
  "'r redis \<Rightarrow> int \<Rightarrow> 'r RedisCache \<Rightarrow> (bool \<times> bool \<times> bool \<times> bool) \<times> 'r RedisCache" where
  "checkRedisConnection rd now s =
     (if now - lastConnectionCheck s < connectionCheckInterval then (flags s, s)
      else
        (case probe_body rd (s\<lparr>lastConnectionCheck := now\<rparr>) of
           Inr s1 \<Rightarrow> (flags s1, s1)
         | Inl (error, s1) \<Rightarrow> (flags (connection_failed s1), connection_failed s1)))"

subsection \<open>The constructor\<close>

text \<open>
  The field initialisers, then the first probe. The source starts the probe without
  awaiting it; here it has completed before the next operation.
\<close>

definition fresh :: "string \<Rightarrow> int \<Rightarrow> 'r \<Rightarrow> 'r RedisCache" where
  "fresh pfx ttl b =
     \<lparr>prefix = pfx, defaultTTL = ttl, isRedisAvailable = True, isReadOnly = False,
      keysCommandAllowed = True, getCommandAllowed = True, lastConnectionCheck = 0,
      memoryCache = [], backend = b, calls = []\<rparr>"

definition new_RedisCache :: "'r redis \<Rightarrow> int \<Rightarrow> 'r \<Rightarrow> 'r RedisCache" where
  "new_RedisCache rd now b =
     snd (checkRedisConnection rd now (fresh ''monocloud:'' (60 * 60 * 24) b))"

subsection \<open>get\<close>

definition get_failed :: "thrown \<Rightarrow> 'r RedisCache \<Rightarrow> 'r RedisCache" where
  "get_failed error s =
     (if error_with noperm_msg error then s\<lparr>getCommandAllowed := False\<rparr>
      else if error_with connection_msg error then s\<lparr>isRedisAvailable := False\<rparr>
      else s)"

definition RedisCache_get :: "'r redis \<Rightarrow> 'r RedisCache \<Rightarrow> string \<Rightarrow> jsval \<times> 'r RedisCache" where
  "RedisCache_get rd s key =
     (if Map_has (memoryCache s) key then (Map_get (memoryCache s) key, s)
      else if isRedisAvailable s \<and> getCommandAllowed s
      then (case call_get rd s (getFullKey s key) of
              (Inr data, s1) \<Rightarrow>
                if truthy data
                then (data, s1\<lparr>memoryCache := Map_set (memoryCache s1) key data\<rparr>)
                else (JNull, s1)
            | (Inl error, s1) \<Rightarrow> (JNull, get_failed error s1))
      else (JNull, s))"

subsection \<open>set\<close>

text \<open>
  \<^verbatim>\<open>JSON.parse(JSON.stringify(data))\<close> inside the try: for the values of \<open>jsval\<close> it
  throws exactly on a top-level \<^verbatim>\<open>undefined\<close>, where stringify returns
  \<^verbatim>\<open>undefined\<close> and parse rejects it with a SyntaxError.
\<close>

definition serialization_check :: "jsval \<Rightarrow> thrown option" where
  "serialization_check data =
     (if data = JUndefined then Some (ErrorObj ''Unexpected token u in JSON at position 0'')
      else None)"

definition set_failed :: "thrown \<Rightarrow> 'r RedisCache \<Rightarrow> 'r RedisCache" where
  "set_failed error s =
     (if error_with write_denied_msg error then s\<lparr>isReadOnly := True\<rparr>
      else if error_with connection_msg error then s\<lparr>isRedisAvailable := False\<rparr>
      else s)"

text \<open>The body of the try in set: \<open>Inl\<close> is what reaches the catch.\<close>

definition set_body ::
  "'r redis \<Rightarrow> 'r RedisCache \<Rightarrow> string \<Rightarrow> jsval \<Rightarrow> int \<Rightarrow> (thrown + bool) \<times> 'r RedisCache" where
  "set_body rd s key data ttl =
     (case serialization_check data of
        Some e \<Rightarrow> (Inl e, s)
      | None \<Rightarrow>
          (case call_set rd s (getFullKey s key) data ttl of
             (Inl e, s1) \<Rightarrow> (Inl e, s1)
           | (Inr u, s1) \<Rightarrow>
               if getCommandAllowed s1
               then (case call_get rd s1 (getFullKey s key) of
                       (Inl e, s2) \<Rightarrow> (Inl e, s2)
                     | (Inr verifyData, s2) \<Rightarrow>
                         if truthy verifyData then (Inr True, s2) else (Inr False, s2))
               else (Inr True, s1)))"

text \<open>The default parameter \<^verbatim>\<open>ttl: number = this.defaultTTL\<close>.\<close>

definition ttl_or_default :: "'r RedisCache \<Rightarrow> int option \<Rightarrow> int" where
  "ttl_or_default s ttl_arg = (case ttl_arg of None \<Rightarrow> defaultTTL s | Some t \<Rightarrow> t)"

definition RedisCache_set ::
  "'r redis \<Rightarrow> 'r RedisCache \<Rightarrow> string \<Rightarrow> jsval \<Rightarrow> int option \<Rightarrow> bool \<times> 'r RedisCache" where
  "RedisCache_set rd s key data ttl_arg =
     (let ttl = ttl_or_default s ttl_arg;
          s0 = s\<lparr>memoryCache := Map_set (memoryCache s) key data\<rparr>
      in if isRedisAvailable s0 \<and> \<not> isReadOnly s0
         then (case set_body rd s0 key data ttl of
                 (Inr ok, s1) \<Rightarrow> (ok, s1)
               | (Inl error, s1) \<Rightarrow> (False, set_failed error s1))
         else if isReadOnly s0 then (True, s0)
         else (True, s0))"

subsection \<open>has, delete, clear\<close>

definition RedisCache_has :: "'r redis \<Rightarrow> 'r RedisCache \<Rightarrow> string \<Rightarrow> bool \<times> 'r RedisCache" where
  "RedisCache_has rd s key =
     (if Map_has (memoryCache s) key then (True, s)
      else if isRedisAvailable s
      then (case call_exists rd s (getFullKey s key) of
              (Inr n, s1) \<Rightarrow> (n = 1, s1)
            | (Inl error, s1) \<Rightarrow> (False, s1))
      else (False, s))"

definition delete_failed :: "thrown \<Rightarrow> 'r RedisCache \<Rightarrow> 'r RedisCache" where
  "delete_failed error s =
     (if error_with write_denied_msg error then s\<lparr>isReadOnly := True\<rparr> else s)"

definition RedisCache_delete :: "'r redis \<Rightarrow> 'r RedisCache \<Rightarrow> string \<Rightarrow> bool \<times> 'r RedisCache" where
  "RedisCache_delete rd s key =
     (let s0 = s\<lparr>memoryCache := Map_delete (memoryCache s) key\<rparr>
      in if isRedisAvailable s0 \<and> \<not> isReadOnly s0
         then (case call_del rd s0 [getFullKey s0 key] of
                 (Inr n, s1) \<Rightarrow> (True, s1)
               | (Inl error, s1) \<Rightarrow> (False, delete_failed error s1))
         else (True, s0))"

definition clear_failed :: "thrown \<Rightarrow> 'r RedisCache \<Rightarrow> 'r RedisCache" where
  "clear_failed error s =
     (if error_with keys_noperm_msg error then s\<lparr>keysCommandAllowed := False\<rparr>
      else if error_with write_denied_msg error then s\<lparr>isReadOnly := True\<rparr>
      else s)"

text \<open>\<^verbatim>\<open>pattern ? this.getFullKey(pattern) : this.prefix + "*"\<close>: a missing and an empty
  pattern both take the second branch.\<close>

definition fullPattern :: "'r RedisCache \<Rightarrow> string option \<Rightarrow> string" where
  "fullPattern s pattern =
     (case pattern of
        None \<Rightarrow> prefix s @ ''*''
      | Some p \<Rightarrow> if p \<noteq> [] then getFullKey s p else prefix s @ ''*'')"

definition RedisCache_clear :: "'r redis \<Rightarrow> 'r RedisCache \<Rightarrow> string option \<Rightarrow> bool \<times> 'r RedisCache" where
  "RedisCache_clear rd s pattern =
     (let s0 = s\<lparr>memoryCache := []\<rparr>
      in if isRedisAvailable s0 \<and> \<not> isReadOnly s0 \<and> keysCommandAllowed s0
         then (case call_keys rd s0 (fullPattern s0 pattern) of
                 (Inl error, s1) \<Rightarrow> (False, clear_failed error s1)
               | (Inr ks, s1) \<Rightarrow>
                   if length ks > 0
                   then (case call_del rd s1 ks of
                           (Inl error, s2) \<Rightarrow> (False, clear_failed error s2)
                         | (Inr n, s2) \<Rightarrow> (True, s2))
                   else (True, s1))
         else if \<not> keysCommandAllowed s0 then (True, s0)
         else (True, s0))"

subsection \<open>getStatus\<close>

record status =
  available :: bool
  readOnly :: bool
  keysCount :: nat
  memoryKeysCount :: nat
  status_keysCommandAllowed :: bool
  status_getCommandAllowed :: bool

definition count_keys :: "'r redis \<Rightarrow> 'r RedisCache \<Rightarrow> nat \<times> 'r RedisCache" where
  "count_keys rd s =
     (if isRedisAvailable s \<and> keysCommandAllowed s
      then (case call_keys rd s (prefix s @ ''*'') of
              (Inr ks, s1) \<Rightarrow> (length ks, s1)
            | (Inl error, s1) \<Rightarrow>
                (0, if error_with keys_noperm_msg error
                    then s1\<lparr>keysCommandAllowed := False\<rparr> else s1))
      else (0, s))"

definition getStatus :: "'r redis \<Rightarrow> int \<Rightarrow> 'r RedisCache \<Rightarrow> status \<times> 'r RedisCache" where
  "getStatus rd now s =
     (case count_keys rd (snd (checkRedisConnection rd now s)) of
        (n, s2) \<Rightarrow>
          (\<lparr>available = isRedisAvailable s2, readOnly = isReadOnly s2, keysCount = n,
            memoryKeysCount = Map_size (memoryCache s2),
            status_keysCommandAllowed = keysCommandAllowed s2,
            status_getCommandAllowed = getCommandAllowed s2\<rparr>, s2))"

section \<open>ServerCache (src/lib/cache.ts)\<close>

record CacheEntry =
  data :: jsval
  timestamp :: int
  expiresAt :: int

type_synonym ServerCache = "CacheEntry jsmap"

definition ServerCache_defaultTTL :: int where
  "ServerCache_defaultTTL = 1000 * 60 * 60"

definition ServerCache_get :: "int \<Rightarrow> ServerCache \<Rightarrow> string \<Rightarrow> jsval \<times> ServerCache" where
  "ServerCache_get now c key =
     (case map_of c key of
        None \<Rightarrow> (JNull, c)
      | Some entry \<Rightarrow>
          if now > expiresAt entry then (JNull, Map_delete c key) else (data entry, c))"

definition ServerCache_set :: "int \<Rightarrow> ServerCache \<Rightarrow> string \<Rightarrow> jsval \<Rightarrow> int option \<Rightarrow> ServerCache" where
  "ServerCache_set now c key d ttl_arg =
     (let ttl = (case ttl_arg of None \<Rightarrow> ServerCache_defaultTTL | Some t \<Rightarrow> t)
      in Map_set c key \<lparr>data = d, timestamp = now, expiresAt = now + ttl\<rparr>)"

definition ServerCache_has :: "int \<Rightarrow> ServerCache \<Rightarrow> string \<Rightarrow> bool" where
  "ServerCache_has now c key =
     (case map_of c key of None \<Rightarrow> False | Some entry \<Rightarrow> now \<le> expiresAt entry)"

section \<open>Test doubles for the persistent tier\<close>

text \<open>
  A stateless client that answers every call of a method with one fixed reply: the
  "persistent tier test double configured to ..." of the test scenarios.
\<close>

definition canned ::
  "(thrown + jsval) \<Rightarrow> (thrown + int) \<Rightarrow> (thrown + string list) \<Rightarrow> (thrown + unit) \<Rightarrow>
   (thrown + int) \<Rightarrow> unit redis" where
  "canned g e k w d =
     \<lparr>redis_get = (\<lambda>b key. (g, b)), redis_exists = (\<lambda>b key. (e, b)),
      redis_keys = (\<lambda>b pat. (k, b)), redis_set = (\<lambda>b key v ex. (w, b)),
      redis_del = (\<lambda>b ks. (d, b))\<rparr>"

text \<open>A tier on which every call is rejected with the same thrown value.\<close>

definition always_throws :: "thrown \<Rightarrow> unit redis" where
  "always_throws t = canned (Inl t) (Inl t) (Inl t) (Inl t) (Inl t)"

text \<open>A tier that accepts every call and holds nothing.\<close>

definition empty_store :: "unit redis" where
  "empty_store = canned (Inr JNull) (Inr 0) (Inr []) (Inr ()) (Inr 0)"

text \<open>A tier that serves \<open>n\<close> calls, holding nothing, and rejects every call after them.\<close>

definition fails_after :: "thrown \<Rightarrow> nat redis" where
  "fails_after t =
     \<lparr>redis_get = (\<lambda>b key. if 0 < b then (Inr JNull, b - 1) else (Inl t, b)),
      redis_exists = (\<lambda>b key. if 0 < b then (Inr 0, b - 1) else (Inl t, b)),
      redis_keys = (\<lambda>b pat. if 0 < b then (Inr [], b - 1) else (Inl t, b)),
      redis_set = (\<lambda>b key v ex. if 0 < b then (Inr (), b - 1) else (Inl t, b)),
      redis_del = (\<lambda>b ks. if 0 < b then (Inr 0, b - 1) else (Inl t, b))\<rparr>"

text \<open>A tier that serves \<open>n\<close> point reads and rejects the later ones; it accepts every
  other call.\<close>

definition reads_fail_after :: "thrown \<Rightarrow> nat redis" where
  "reads_fail_after t =
     \<lparr>redis_get = (\<lambda>b key. if 0 < b then (Inr JNull, b - 1) else (Inl t, b)),
      redis_exists = (\<lambda>b key. (Inr 0, b)),
      redis_keys = (\<lambda>b pat. (Inr [], b)),
      redis_set = (\<lambda>b key v ex. (Inr (), b)),
      redis_del = (\<lambda>b ks. (Inr 0, b))\<rparr>"

text \<open>A tier that refuses every point read with a permission error and serves every
  other call.\<close>

definition reads_denied :: "unit redis" where
  "reads_denied =
     canned (Inl (ErrorObj ''NOPERM this user has no permissions to run the get command''))
       (Inr 0) (Inr []) (Inr ()) (Inr 1)"

text \<open>A tier that rejects key enumeration and serves every other call.\<close>

definition keys_denied :: "unit redis" where
  "keys_denied =
     canned (Inr JNull) (Inr 0)
       (Inl (ErrorObj ''NOPERM this user has no permissions to run the keys command''))
       (Inr ()) (Inr 1)"

text \<open>
  A client that rejects with values only, never with \<^verbatim>\<open>null\<close> or \<^verbatim>\<open>undefined\<close> (as the
  Upstash client does: it rejects with Error objects).
\<close>

definition rejects_with_values :: "'r redis \<Rightarrow> bool" where
  "rejects_with_values rd =
     (\<forall>b key v ex ks.
        fst (redis_get rd b key) \<noteq> Inl Nullish \<and>
        fst (redis_exists rd b key) \<noteq> Inl Nullish \<and>
        fst (redis_keys rd b key) \<noteq> Inl Nullish \<and>
        fst (redis_set rd b key v ex) \<noteq> Inl Nullish \<and>
        fst (redis_del rd b ks) \<noteq> Inl Nullish)"

text \<open>The cache state a probe step ends in, whether or not its handler threw.\<close>

definition step_state :: "'r step \<Rightarrow> 'r RedisCache" where
  "step_state r = (case r of Inl (t, s) \<Rightarrow> s | Inr s \<Rightarrow> s)"

text \<open>The thrown values of the scenarios.\<close>

definition network_timeout :: thrown where
  "network_timeout = ErrorObj ''network timeout''"

definition noperm_message :: string where
  "noperm_message = ''NOPERM this user has no permissions to run this command''"

text \<open>The singleton before its first probe: the constructor's defaults, no call made yet.\<close>

definition example_cache :: "unit RedisCache" where
  "example_cache = fresh ''monocloud:'' (60 * 60 * 24) ()"

text \<open>
  Caches as the constructor leaves them at clock reading 1000000: on a tier that is down
  from the start, on a tier that goes down (or starts to refuse every command) right after
  the five calls of the first probe, on a tier that times out on every point read after
  the probe's, on a tier that serves one more call after the probe and then goes down, on
  the empty tier, and on a tier that refuses key enumeration.
\<close>

definition cache_tier_down :: "nat RedisCache" where
  "cache_tier_down = new_RedisCache (fails_after network_timeout) 1000000 0"

definition cache_tier_went_down :: "nat RedisCache" where
  "cache_tier_went_down = new_RedisCache (fails_after network_timeout) 1000000 5"

definition cache_tier_went_read_only :: "nat RedisCache" where
  "cache_tier_went_read_only = new_RedisCache (fails_after (ErrorObj noperm_message)) 1000000 5"

definition cache_reads_time_out :: "nat RedisCache" where
  "cache_reads_time_out = new_RedisCache (reads_fail_after network_timeout) 1000000 1"

definition cache_tier_goes_down_later :: "nat RedisCache" where
  "cache_tier_goes_down_later = new_RedisCache (fails_after network_timeout) 1000000 6"

definition cache_on_empty_store :: "unit RedisCache" where
  "cache_on_empty_store = new_RedisCache empty_store 1000000 ()"

definition cache_without_keys :: "unit RedisCache" where
  "cache_without_keys =
     snd (RedisCache_set keys_denied (new_RedisCache keys_denied 1000000 ())
            ''repo:a'' (JNum 1) (Some 60))"

text \<open>
  Two caches on a tier that refuses point reads once it has served some: one that can
  still read, and one that has learnt from a refused get that it cannot.
\<close>

definition cache_reads_allowed :: "nat RedisCache" where
  "cache_reads_allowed = new_RedisCache (reads_fail_after (ErrorObj noperm_message)) 1000000 5"

definition cache_reads_refused :: "nat RedisCache" where
  "cache_reads_refused =
     snd (RedisCache_get (reads_fail_after (ErrorObj noperm_message))
            (new_RedisCache (reads_fail_after (ErrorObj noperm_message)) 1000000 1) ''repo:b'')"

section \<open>Properties\<close>




lemma map_of_Map_set: "map_of (Map_set m k v) k = Some v"
  by (induction m) auto

lemma Map_has_Map_set: "Map_has (Map_set m k v) k"
  by (simp add: Map_has_def map_of_Map_set)

lemma Map_get_Map_set: "Map_get (Map_set m k v) k = v"
  by (simp add: Map_get_def map_of_Map_set)

lemma call_get_eq:
  "call_get rd s k = (fst (redis_get rd (backend s) k),
     s\<lparr>backend := snd (redis_get rd (backend s) k), calls := calls s @ [GET k]\<rparr>)"
  by (simp add: call_get_def split: prod.splits)

lemma call_exists_eq:
  "call_exists rd s k = (fst (redis_exists rd (backend s) k),
     s\<lparr>backend := snd (redis_exists rd (backend s) k), calls := calls s @ [EXISTS k]\<rparr>)"
  by (simp add: call_exists_def split: prod.splits)

lemma call_keys_eq:
  "call_keys rd s p = (fst (redis_keys rd (backend s) p),
     s\<lparr>backend := snd (redis_keys rd (backend s) p), calls := calls s @ [KEYS p]\<rparr>)"
  by (simp add: call_keys_def split: prod.splits)

lemma call_set_eq:
  "call_set rd s k v ex = (fst (redis_set rd (backend s) k v ex),
     s\<lparr>backend := snd (redis_set rd (backend s) k v ex), calls := calls s @ [SET k v ex]\<rparr>)"
  by (simp add: call_set_def split: prod.splits)

lemma call_del_eq:
  "call_del rd s ks = (fst (redis_del rd (backend s) ks),
     s\<lparr>backend := snd (redis_del rd (backend s) ks), calls := calls s @ [DEL ks]\<rparr>)"
  by (simp add: call_del_def split: prod.splits)

lemmas call_eqs = call_get_eq call_exists_eq call_keys_eq call_set_eq call_del_eq

lemma set_failed_memoryCache: "memoryCache (set_failed e s) = memoryCache s"
  by (simp add: set_failed_def)

lemma set_body_memoryCache: "memoryCache (snd (set_body rd s key d ttl)) = memoryCache s"
  by (simp add: set_body_def call_eqs serialization_check_def split: sum.splits)

lemma RedisCache_set_memoryCache:
  "memoryCache (snd (RedisCache_set rd s k v ttl)) = Map_set (memoryCache s) k v"
proof -
  let ?s0 = "s\<lparr>memoryCache := Map_set (memoryCache s) k v\<rparr>"
  obtain res s1 where body: "set_body rd ?s0 k v (ttl_or_default s ttl) = (res, s1)"
    by fastforce
  have "memoryCache s1 = Map_set (memoryCache s) k v"
    using set_body_memoryCache [of rd ?s0 k v "ttl_or_default s ttl"] body by simp
  then show ?thesis
    by (cases res) (simp_all add: RedisCache_set_def Let_def body set_failed_memoryCache)
qed

lemma set_skipped:
  assumes "\<not> isRedisAvailable s \<or> isReadOnly s"
  shows "RedisCache_set rd s k v ttl = (True, s\<lparr>memoryCache := Map_set (memoryCache s) k v\<rparr>)"
  using assms by (auto simp: RedisCache_set_def Let_def)

lemma set_write_rejected:
  assumes "isRedisAvailable s" "\<not> isReadOnly s" "v \<noteq> JUndefined"
    and "fst (redis_set rd (backend s) (getFullKey s k) v (ttl_or_default s ttl)) = Inl e"
  shows "RedisCache_set rd s k v ttl =
    (False, set_failed e (s\<lparr>memoryCache := Map_set (memoryCache s) k v,
       backend := snd (redis_set rd (backend s) (getFullKey s k) v (ttl_or_default s ttl)),
       calls := calls s @ [SET (getFullKey s k) v (ttl_or_default s ttl)]\<rparr>))"
  using assms
  by (simp add: RedisCache_set_def Let_def set_body_def serialization_check_def call_eqs
      getFullKey_def)

lemma set_write_accepted_unverified:
  assumes "isRedisAvailable s" "\<not> isReadOnly s" "v \<noteq> JUndefined" "\<not> getCommandAllowed s"
    and "redis_set rd (backend s) (getFullKey s k) v (ttl_or_default s ttl) = (Inr (), b1)"
  shows "RedisCache_set rd s k v ttl =
    (True, s\<lparr>memoryCache := Map_set (memoryCache s) k v, backend := b1,
       calls := calls s @ [SET (getFullKey s k) v (ttl_or_default s ttl)]\<rparr>)"
  using assms
  by (simp add: RedisCache_set_def Let_def set_body_def serialization_check_def call_eqs
      getFullKey_def)

lemma set_write_accepted_verified:
  assumes "isRedisAvailable s" "\<not> isReadOnly s" "v \<noteq> JUndefined" "getCommandAllowed s"
    and "redis_set rd (backend s) (getFullKey s k) v (ttl_or_default s ttl) = (Inr (), b1)"
    and "redis_get rd b1 (getFullKey s k) = (Inr d, b2)"
  shows "RedisCache_set rd s k v ttl =
    (truthy d, s\<lparr>memoryCache := Map_set (memoryCache s) k v, backend := b2,
       calls := calls s @ [SET (getFullKey s k) v (ttl_or_default s ttl), GET (getFullKey s k)]\<rparr>)"
  using assms
  by (simp add: RedisCache_set_def Let_def set_body_def serialization_check_def call_eqs
      getFullKey_def)

text \<open>
  C2. For every key, value and TTL, and whatever the persistent tier does during the set
  and during the get: set followed at once by get returns the value that was set. The get
  is served by the Local Tier and leaves the cache state as it was, so it issues no call to
  the persistent tier.
\<close>

theorem set_then_get_returns_value:
  "RedisCache_get rd' (snd (RedisCache_set rd s k v ttl)) k = (v, snd (RedisCache_set rd s k v ttl))"
  by (simp add: RedisCache_get_def RedisCache_set_memoryCache Map_has_Map_set Map_get_Map_set)

lemma set_undefined_value:
  assumes "isRedisAvailable s" "\<not> isReadOnly s"
  shows "fst (RedisCache_set rd s k JUndefined ttl) = False"
  using assms by (simp add: RedisCache_set_def Let_def set_body_def serialization_check_def)

lemma set_write_rejected_result:
  assumes "isRedisAvailable s" "\<not> isReadOnly s"
    and "fst (redis_set rd (backend s) (getFullKey s k) v (ttl_or_default s ttl)) = Inl e"
  shows "fst (RedisCache_set rd s k v ttl) = False"
proof (cases "v = JUndefined")
  case True
  then show ?thesis
    using set_undefined_value [OF assms(1,2)] by simp
next
  case False
  then show ?thesis
    using set_write_rejected [OF assms(1,2) False assms(3)] by simp
qed

text \<open>
  C1 (as amended). For every key, value and TTL, every cache state and every client: when
  the tier is marked unavailable or read-only, set skips the persistent write, writes the
  Local Tier and returns true with nothing else changed. When the tier is marked available
  and writable and the client rejects the persistent write, with any thrown value, set
  returns false, and the Local Tier holds the value all the same.
\<close>

theorem set_reports_persistent_write:
  "(\<not> isRedisAvailable s \<or> isReadOnly s \<longrightarrow>
      RedisCache_set rd s k v ttl = (True, s\<lparr>memoryCache := Map_set (memoryCache s) k v\<rparr>)) \<and>
   (isRedisAvailable s \<and> \<not> isReadOnly s \<and>
    fst (redis_set rd (backend s) (getFullKey s k) v (ttl_or_default s ttl)) = Inl e \<longrightarrow>
      fst (RedisCache_set rd s k v ttl) = False \<and>
      memoryCache (snd (RedisCache_set rd s k v ttl)) = Map_set (memoryCache s) k v)"
  using set_skipped [of s rd k v ttl] set_write_rejected_result [of s rd k v ttl e]
  by (simp add: RedisCache_set_memoryCache)

text \<open>
  C10. With the tier marked available and writable and a value that serialises, for every
  client: when point reads are permitted and the client accepts the persistent write, set
  reads the key back, and when that read yields no data (null or another falsy value) set
  returns false, with the Local Tier written and the SET and the GET issued. When point
  reads are not permitted and the client accepts the persistent write, set issues the SET
  alone and returns true.
\<close>

theorem set_verification_read:
  "(isRedisAvailable s \<and> \<not> isReadOnly s \<and> v \<noteq> JUndefined \<and> getCommandAllowed s \<and>
    redis_set rd (backend s) (getFullKey s k) v (ttl_or_default s ttl) = (Inr (), b1) \<and>
    redis_get rd b1 (getFullKey s k) = (Inr d, b2) \<and> \<not> truthy d \<longrightarrow>
      RedisCache_set rd s k v ttl =
        (False, s\<lparr>memoryCache := Map_set (memoryCache s) k v, backend := b2,
           calls := calls s @ [SET (getFullKey s k) v (ttl_or_default s ttl),
                               GET (getFullKey s k)]\<rparr>)) \<and>
   (isRedisAvailable s \<and> \<not> isReadOnly s \<and> v \<noteq> JUndefined \<and> \<not> getCommandAllowed s \<and>
    redis_set rd (backend s) (getFullKey s k) v (ttl_or_default s ttl) = (Inr (), b3) \<longrightarrow>
      RedisCache_set rd s k v ttl =
        (True, s\<lparr>memoryCache := Map_set (memoryCache s) k v, backend := b3,
           calls := calls s @ [SET (getFullKey s k) v (ttl_or_default s ttl)]\<rparr>))"
  using set_write_accepted_verified [of s v rd k ttl b1 d b2]
    set_write_accepted_unverified [of s v rd k ttl b3]
  by simp

lemma step_state_simps [simp]:
  "step_state (Inr s) = s" "step_state (Inl (t, s)) = s"
  by (simp_all add: step_state_def)

lemma probe_read_memoryCache: "memoryCache (step_state (probe_read rd s)) = memoryCache s"
  by (simp add: probe_read_def call_eqs split: sum.splits)

lemma probe_exists_memoryCache: "memoryCache (step_state (probe_exists rd s)) = memoryCache s"
  by (simp add: probe_exists_def call_eqs split: sum.splits)

lemma probe_keys_memoryCache: "memoryCache (step_state (probe_keys rd s)) = memoryCache s"
  by (simp add: probe_keys_def call_eqs split: sum.splits)

lemma probe_write_memoryCache: "memoryCache (step_state (probe_write rd s)) = memoryCache s"
  by (simp add: probe_write_def probe_write_failed_def call_eqs split: sum.splits)

lemma probe_body_memoryCache: "memoryCache (step_state (probe_body rd s)) = memoryCache s"
proof (cases "probe_read rd s")
  case (Inl x)
  then show ?thesis
    using probe_read_memoryCache [of rd s] by (simp add: probe_body_def)
next
  case r: (Inr s1)
  then have m1: "memoryCache s1 = memoryCache s"
    using probe_read_memoryCache [of rd s] by simp
  show ?thesis
  proof (cases "probe_exists rd s1")
    case (Inl x)
    then show ?thesis
      using probe_exists_memoryCache [of rd s1] r m1 by (simp add: probe_body_def)
  next
    case e: (Inr s2)
    then have m2: "memoryCache s2 = memoryCache s"
      using probe_exists_memoryCache [of rd s1] m1 by simp
    show ?thesis
    proof (cases "probe_keys rd s2")
      case (Inl x)
      then show ?thesis
        using probe_keys_memoryCache [of rd s2] r e m2 by (simp add: probe_body_def)
    next
      case k: (Inr s3)
      then have m3: "memoryCache s3 = memoryCache s"
        using probe_keys_memoryCache [of rd s2] m2 by simp
      show ?thesis
        using probe_write_memoryCache [of rd s3] r e k m3 by (simp add: probe_body_def)
    qed
  qed
qed

lemma checkRedisConnection_memoryCache:
  "memoryCache (snd (checkRedisConnection rd now s)) = memoryCache s"
proof (cases "probe_body rd (s\<lparr>lastConnectionCheck := now\<rparr>)")
  case (Inl x)
  then show ?thesis
    using probe_body_memoryCache [of rd "s\<lparr>lastConnectionCheck := now\<rparr>"]
    by (cases x) (simp add: checkRedisConnection_def connection_failed_def)
next
  case (Inr s1)
  then show ?thesis
    using probe_body_memoryCache [of rd "s\<lparr>lastConnectionCheck := now\<rparr>"]
    by (simp add: checkRedisConnection_def)
qed

lemma count_keys_frame:
  "memoryCache (snd (count_keys rd s)) = memoryCache s"
  "isRedisAvailable (snd (count_keys rd s)) = isRedisAvailable s"
  "isReadOnly (snd (count_keys rd s)) = isReadOnly s"
  "getCommandAllowed (snd (count_keys rd s)) = getCommandAllowed s"
  by (simp_all add: count_keys_def call_eqs split: sum.splits)

lemma getStatus_fields:
  "available (fst (getStatus rd now s)) = isRedisAvailable (snd (checkRedisConnection rd now s))"
  "readOnly (fst (getStatus rd now s)) = isReadOnly (snd (checkRedisConnection rd now s))"
  "status_getCommandAllowed (fst (getStatus rd now s)) =
     getCommandAllowed (snd (checkRedisConnection rd now s))"
  "memoryKeysCount (fst (getStatus rd now s)) = Map_size (memoryCache s)"
  "memoryCache (snd (getStatus rd now s)) = memoryCache s"
  by (simp_all add: getStatus_def case_prod_beta count_keys_frame
      checkRedisConnection_memoryCache)

lemma checkRedisConnection_cached:
  "now - lastConnectionCheck s < connectionCheckInterval \<Longrightarrow>
   checkRedisConnection rd now s = (flags s, s)"
  by (simp add: checkRedisConnection_def)


lemma get_failed_frame:
  "memoryCache (get_failed e s) = memoryCache s"
  "lastConnectionCheck (get_failed e s) = lastConnectionCheck s"
  "isReadOnly (get_failed e s) = isReadOnly s"
  "keysCommandAllowed (get_failed e s) = keysCommandAllowed s"
  by (simp_all add: get_failed_def)

lemma get_failed_connection:
  "error_with connection_msg e \<Longrightarrow> \<not> error_with noperm_msg e \<Longrightarrow>
   get_failed e s = s\<lparr>isRedisAvailable := False\<rparr>"
  by (simp add: get_failed_def)

lemma get_read_rejected:
  assumes "\<not> Map_has (memoryCache s) k" "isRedisAvailable s" "getCommandAllowed s"
    and "fst (redis_get rd (backend s) (getFullKey s k)) = Inl e"
  shows "RedisCache_get rd s k =
    (JNull, get_failed e (s\<lparr>backend := snd (redis_get rd (backend s) (getFullKey s k)),
       calls := calls s @ [GET (getFullKey s k)]\<rparr>))"
  using assms by (simp add: RedisCache_get_def call_eqs)

lemma set_failed_frame:
  "lastConnectionCheck (set_failed e s) = lastConnectionCheck s"
  by (simp add: set_failed_def)

lemma set_failed_write_denied:
  "write_denied_msg m \<Longrightarrow> set_failed (ErrorObj m) s = s\<lparr>isReadOnly := True\<rparr>"
  by (simp add: set_failed_def)

text \<open>
  What get does with a rejected read (the part of C4 that the code keeps). When the
  persistent read of a get is rejected, with any thrown value, get returns absent. When
  the thrown value is an Error whose message is classified as a connection problem and not
  as a permission problem, get also clears the available flag, and a getStatus call made
  within the probe interval of the last probe reports available = false.
\<close>

theorem get_swallows_read_errors:
  assumes "\<not> Map_has (memoryCache s) k" and "isRedisAvailable s" and "getCommandAllowed s"
    and "fst (redis_get rd (backend s) (getFullKey s k)) = Inl e"
  shows "fst (RedisCache_get rd s k) = JNull \<and>
         (error_with connection_msg e \<and> \<not> error_with noperm_msg e \<longrightarrow>
            \<not> isRedisAvailable (snd (RedisCache_get rd s k)) \<and>
            (now - lastConnectionCheck s < connectionCheckInterval \<longrightarrow>
               \<not> available (fst (getStatus rd' now (snd (RedisCache_get rd s k))))))"
  using get_read_rejected [OF assms]
  by (simp add: get_failed_connection getStatus_fields checkRedisConnection_cached)

lemma probe_write_rejected:
  assumes "\<forall>b key val ex. \<exists>t. fst (redis_set rd b key val ex) = Inl t"
    and "probe_write rd s = Inr s'"
  shows "isReadOnly s'"
proof -
  obtain t where "fst (redis_set rd (backend s) (prefix s @ ''_connection_test_write'')
      (JStr ''test'') 10) = Inl t"
    using assms(1) by blast
  then show ?thesis
    using assms(2)
    by (auto simp: probe_write_def probe_write_failed_def call_eqs split: sum.splits)
qed

lemma probe_body_write_rejected:
  assumes "\<forall>b key val ex. \<exists>t. fst (redis_set rd b key val ex) = Inl t"
    and "probe_body rd s = Inr s'"
  shows "isReadOnly s'"
proof -
  from assms(2) obtain s3 where "probe_write rd s3 = Inr s'"
    by (auto simp: probe_body_def split: sum.splits)
  then show ?thesis
    by (rule probe_write_rejected [OF assms(1)])
qed

lemma executed_probe_write_rejected:
  assumes "\<forall>b key val ex. \<exists>t. fst (redis_set rd b key val ex) = Inl t"
    and "\<not> now - lastConnectionCheck s < connectionCheckInterval"
  shows "isReadOnly (snd (checkRedisConnection rd now s))"
proof (cases "probe_body rd (s\<lparr>lastConnectionCheck := now\<rparr>)")
  case (Inl x)
  then show ?thesis
    using assms(2) by (cases x) (simp add: checkRedisConnection_def connection_failed_def)
next
  case (Inr s1)
  then show ?thesis
    using assms(2) probe_body_write_rejected [OF assms(1) Inr]
    by (simp add: checkRedisConnection_def)
qed

text \<open>
  C6. When set attempts the persistent write and the client rejects it with an Error whose
  message contains NOPERM, "no permissions" or "readonly", the cache state after that one
  set call has readOnly = true. A getStatus call that follows reports readOnly = true: when
  it comes before the next probe is due it returns the recorded flag, and when the probe
  runs again on a tier that still rejects writes the probe sets the flag again.
\<close>

theorem set_permission_error_marks_read_only:
  assumes "isRedisAvailable s" and "\<not> isReadOnly s" and "v \<noteq> JUndefined"
    and "fst (redis_set rd (backend s) (getFullKey s k) v (ttl_or_default s ttl)) = Inl (ErrorObj m)"
    and "write_denied_msg m"
    and "now - lastConnectionCheck s < connectionCheckInterval \<or>
         (\<forall>b key val ex. \<exists>t. fst (redis_set rd' b key val ex) = Inl t)"
  shows "isReadOnly (snd (RedisCache_set rd s k v ttl)) \<and>
         readOnly (fst (getStatus rd' now (snd (RedisCache_set rd s k v ttl))))"
proof -
  let ?s1 = "snd (RedisCache_set rd s k v ttl)"
  have ro: "isReadOnly ?s1" and last: "lastConnectionCheck ?s1 = lastConnectionCheck s"
    using set_write_rejected [OF assms(1-4)] assms(5)
    by (simp_all add: set_failed_write_denied)
  have "isReadOnly (snd (checkRedisConnection rd' now ?s1))"
  proof (cases "now - lastConnectionCheck s < connectionCheckInterval")
    case True
    then show ?thesis
      using ro last by (simp add: checkRedisConnection_cached)
  next
    case False
    with assms(6) have "\<forall>b key val ex. \<exists>t. fst (redis_set rd' b key val ex) = Inl t"
      by blast
    then show ?thesis
      using False last by (simp add: executed_probe_write_rejected)
  qed
  then show ?thesis
    using ro by (simp add: getStatus_fields)
qed

lemma message_of_Inl: "message_of t = Inl u \<Longrightarrow> t = Nullish"
  by (cases t) simp_all

lemma probe_read_flags:
  "probe_read rd s = Inr s1 \<Longrightarrow> isRedisAvailable s1 = getCommandAllowed s1"
  by (auto simp: probe_read_def call_eqs split: sum.splits if_splits)

lemma probe_exists_flags:
  "probe_exists rd s = Inr s1 \<Longrightarrow>
   isRedisAvailable s1 = isRedisAvailable s \<and> getCommandAllowed s1 = getCommandAllowed s"
  by (auto simp: probe_exists_def call_eqs split: sum.splits if_splits)

lemma probe_keys_flags:
  "probe_keys rd s = Inr s1 \<Longrightarrow>
   isRedisAvailable s1 = isRedisAvailable s \<and> getCommandAllowed s1 = getCommandAllowed s"
  by (auto simp: probe_keys_def call_eqs split: sum.splits if_splits)

lemma probe_write_flags:
  "probe_write rd s = Inr s1 \<Longrightarrow>
   isRedisAvailable s1 = isRedisAvailable s \<and> getCommandAllowed s1 = getCommandAllowed s"
  by (auto simp: probe_write_def probe_write_failed_def call_eqs split: sum.splits if_splits)

lemma probe_body_flags:
  assumes "probe_body rd s = Inr s'"
  shows "isRedisAvailable s' = getCommandAllowed s'"
proof -
  from assms obtain s1 s2 s3 where
    "probe_read rd s = Inr s1" "probe_exists rd s1 = Inr s2"
    "probe_keys rd s2 = Inr s3" "probe_write rd s3 = Inr s'"
    by (auto simp: probe_body_def split: sum.splits)
  then show ?thesis
    using probe_read_flags probe_exists_flags probe_keys_flags probe_write_flags by metis
qed

lemma executed_probe_flags:
  assumes "\<not> now - lastConnectionCheck s < connectionCheckInterval"
  shows "isRedisAvailable (snd (checkRedisConnection rd now s)) =
         getCommandAllowed (snd (checkRedisConnection rd now s))"
proof (cases "probe_body rd (s\<lparr>lastConnectionCheck := now\<rparr>)")
  case (Inl x)
  then show ?thesis
    using assms by (cases x) (simp add: checkRedisConnection_def connection_failed_def)
next
  case (Inr s1)
  then show ?thesis
    using assms probe_body_flags [OF Inr] by (simp add: checkRedisConnection_def)
qed

text \<open>
  C5 (as amended). Right after a capability probe that runs (the probe interval has
  elapsed), for every client and every state, available and getCommandAllowed are equal,
  so available = false implies getCommandAllowed = false. readOnly = true and
  keysCommandAllowed = false are not implied: the first probe on a tier that refuses point
  reads and serves every other call ends with available = false, readOnly = false,
  keysCommandAllowed = true, getCommandAllowed = false. Outside the probe the flags are
  updated one at a time: for every client and every state, a get whose persistent read
  fails with a connection error sets available to false and leaves readOnly,
  keysCommandAllowed and getCommandAllowed as they were.
\<close>

theorem available_flag_after_probe_and_get:
  "(\<not> now - lastConnectionCheck s < connectionCheckInterval \<longrightarrow>
      isRedisAvailable (snd (checkRedisConnection rd now s)) =
      getCommandAllowed (snd (checkRedisConnection rd now s))) \<and>
   flags (snd (checkRedisConnection reads_denied 1000000 example_cache)) =
     (False, False, True, False) \<and>
   (\<not> Map_has (memoryCache t) k \<and> isRedisAvailable t \<and> getCommandAllowed t \<and>
    fst (redis_get rd' (backend t) (getFullKey t k)) = Inl e \<and>
    error_with connection_msg e \<and> \<not> error_with noperm_msg e \<longrightarrow>
      flags (snd (RedisCache_get rd' t k)) = (False, isReadOnly t, keysCommandAllowed t, True))"
proof -
  have probe: "\<not> now - lastConnectionCheck s < connectionCheckInterval \<longrightarrow>
      isRedisAvailable (snd (checkRedisConnection rd now s)) =
      getCommandAllowed (snd (checkRedisConnection rd now s))"
    using executed_probe_flags [of now s rd] by blast
  have denied: "flags (snd (checkRedisConnection reads_denied 1000000 example_cache)) =
     (False, False, True, False)"
    by (simp add: reads_denied_def canned_def example_cache_def fresh_def
        checkRedisConnection_def connectionCheckInterval_def probe_body_def probe_read_def
        probe_exists_def probe_keys_def probe_write_def call_eqs noperm_msg_def flags_def)
  have get: "\<not> Map_has (memoryCache t) k \<and> isRedisAvailable t \<and> getCommandAllowed t \<and>
    fst (redis_get rd' (backend t) (getFullKey t k)) = Inl e \<and>
    error_with connection_msg e \<and> \<not> error_with noperm_msg e \<longrightarrow>
      flags (snd (RedisCache_get rd' t k)) = (False, isReadOnly t, keysCommandAllowed t, True)"
    using get_read_rejected [of t k rd' e]
    by (auto simp: get_failed_connection flags_def)
  show ?thesis
    using probe denied get by blast
qed

lemma probe_exists_served:
  assumes "rejects_with_values rd" and "isRedisAvailable s"
  shows "\<exists>s'. probe_exists rd s = Inr s' \<and> isRedisAvailable s' \<and>
           getCommandAllowed s' = getCommandAllowed s \<and> prefix s' = prefix s \<and>
           calls s' = calls s @ [EXISTS (prefix s @ ''_connection_test_readonly'')]"
proof -
  have "fst (redis_exists rd (backend s) (prefix s @ ''_connection_test_readonly'')) \<noteq> Inl Nullish"
    using assms(1) by (simp add: rejects_with_values_def)
  then show ?thesis
    using assms(2)
    by (auto simp: probe_exists_def call_eqs split: sum.splits dest: message_of_Inl)
qed

lemma probe_keys_served:
  assumes "rejects_with_values rd"
  shows "\<exists>s'. probe_keys rd s = Inr s' \<and> isRedisAvailable s' = isRedisAvailable s \<and>
           getCommandAllowed s' = getCommandAllowed s \<and> prefix s' = prefix s \<and>
           calls s' = calls s @ [KEYS (prefix s @ ''_test_keys_*'')]"
proof -
  have "fst (redis_keys rd (backend s) (prefix s @ ''_test_keys_*'')) \<noteq> Inl Nullish"
    using assms(1) by (simp add: rejects_with_values_def)
  then show ?thesis
    by (auto simp: probe_keys_def call_eqs split: sum.splits dest: message_of_Inl)
qed

lemma probe_write_served:
  assumes "rejects_with_values rd"
  shows "\<exists>s' rest. probe_write rd s = Inr s' \<and> isRedisAvailable s' = isRedisAvailable s \<and>
           getCommandAllowed s' = getCommandAllowed s \<and>
           calls s' = calls s @ SET (prefix s @ ''_connection_test_write'') (JStr ''test'') 10 # rest"
proof -
  have "fst (redis_set rd b (prefix s @ ''_connection_test_write'') (JStr ''test'') 10) \<noteq> Inl Nullish"
    and "fst (redis_del rd b [prefix s @ ''_connection_test_write'']) \<noteq> Inl Nullish" for b
    using assms(1) by (simp_all add: rejects_with_values_def)
  then show ?thesis
    by (auto simp: probe_write_def probe_write_failed_def call_eqs split: sum.splits
        dest: message_of_Inl)
qed


lemma probe_read_other_failure:
  assumes "fst (redis_get rd (backend s) (prefix s @ ''_connection_test_readonly'')) = Inl e"
    and "message_of e = Inr m" and "\<not> noperm_msg m"
  shows "\<exists>s'. probe_read rd s = Inr s' \<and> isRedisAvailable s' \<and> getCommandAllowed s' \<and>
           prefix s' = prefix s \<and>
           calls s' = calls s @ [GET (prefix s @ ''_connection_test_readonly'')]"
  using assms by (simp add: probe_read_def call_eqs)

lemma probe_body_other_failure:
  assumes "fst (redis_get rd (backend s) (prefix s @ ''_connection_test_readonly'')) = Inl e"
    and "message_of e = Inr m" and "\<not> noperm_msg m" and "rejects_with_values rd"
  shows "\<exists>s' rest. probe_body rd s = Inr s' \<and> isRedisAvailable s' \<and> getCommandAllowed s' \<and>
           calls s' = calls s @
             [GET (prefix s @ ''_connection_test_readonly''),
              EXISTS (prefix s @ ''_connection_test_readonly''),
              KEYS (prefix s @ ''_test_keys_*''),
              SET (prefix s @ ''_connection_test_write'') (JStr ''test'') 10] @ rest"
proof -
  obtain s1 where s1: "probe_read rd s = Inr s1" "isRedisAvailable s1" "getCommandAllowed s1"
      "prefix s1 = prefix s"
      "calls s1 = calls s @ [GET (prefix s @ ''_connection_test_readonly'')]"
    using probe_read_other_failure [OF assms(1-3)] by blast
  obtain s2 where s2: "probe_exists rd s1 = Inr s2" "isRedisAvailable s2"
      "getCommandAllowed s2 = getCommandAllowed s1" "prefix s2 = prefix s1"
      "calls s2 = calls s1 @ [EXISTS (prefix s1 @ ''_connection_test_readonly'')]"
    using probe_exists_served [OF assms(4) s1(2)] by blast
  obtain s3 where s3: "probe_keys rd s2 = Inr s3" "isRedisAvailable s3 = isRedisAvailable s2"
      "getCommandAllowed s3 = getCommandAllowed s2" "prefix s3 = prefix s2"
      "calls s3 = calls s2 @ [KEYS (prefix s2 @ ''_test_keys_*'')]"
    using probe_keys_served [OF assms(4)] by blast
  obtain s4 rest where s4: "probe_write rd s3 = Inr s4" "isRedisAvailable s4 = isRedisAvailable s3"
      "getCommandAllowed s4 = getCommandAllowed s3"
      "calls s4 = calls s3 @ SET (prefix s3 @ ''_connection_test_write'') (JStr ''test'') 10 # rest"
    using probe_write_served [OF assms(4)] by blast
  have "probe_body rd s = Inr s4"
    by (simp add: probe_body_def s1(1) s2(1) s3(1) s4(1))
  moreover have "isRedisAvailable s4" "getCommandAllowed s4"
    using s1 s2 s3 s4 by simp_all
  moreover have "calls s4 = calls s @
             [GET (prefix s @ ''_connection_test_readonly''),
              EXISTS (prefix s @ ''_connection_test_readonly''),
              KEYS (prefix s @ ''_test_keys_*''),
              SET (prefix s @ ''_connection_test_write'') (JStr ''test'') 10] @ rest"
    using s1 s2 s3 s4 by simp
  ultimately show ?thesis by blast
qed

text \<open>
  The read step of the probe, in general (the behaviour behind C7). During a capability
  probe that runs, if the sentinel-key read is rejected with a value whose message is not
  a permission message (a timeout or any other connection error included), the handler of
  the read step takes it for a permitted read: for a client that never rejects with null
  or undefined the resulting status has available = true and getCommandAllowed = true, and
  the remaining probe steps are not skipped: the existence check, the key enumeration and
  the test write are issued, in that order, after the read. The outer handler of the
  probe, which would set available = false, readOnly = true and both command flags false,
  is not reached.
\<close>

theorem probe_read_failure_keeps_available:
  assumes "\<not> now - lastConnectionCheck s < connectionCheckInterval"
    and "fst (redis_get rd (backend s) (prefix s @ ''_connection_test_readonly'')) = Inl e"
    and "message_of e = Inr m" and "\<not> noperm_msg m" and "rejects_with_values rd"
  shows "isRedisAvailable (snd (checkRedisConnection rd now s)) \<and>
         getCommandAllowed (snd (checkRedisConnection rd now s)) \<and>
         (\<exists>rest. calls (snd (checkRedisConnection rd now s)) = calls s @
             [GET (prefix s @ ''_connection_test_readonly''),
              EXISTS (prefix s @ ''_connection_test_readonly''),
              KEYS (prefix s @ ''_test_keys_*''),
              SET (prefix s @ ''_connection_test_write'') (JStr ''test'') 10] @ rest)"
proof -
  let ?s0 = "s\<lparr>lastConnectionCheck := now\<rparr>"
  have "fst (redis_get rd (backend ?s0) (prefix ?s0 @ ''_connection_test_readonly'')) = Inl e"
    using assms(2) by simp
  from probe_body_other_failure [OF this assms(3,4,5)]
  obtain s' rest where "probe_body rd ?s0 = Inr s'" "isRedisAvailable s'" "getCommandAllowed s'"
    "calls s' = calls s @
             [GET (prefix s @ ''_connection_test_readonly''),
              EXISTS (prefix s @ ''_connection_test_readonly''),
              KEYS (prefix s @ ''_test_keys_*''),
              SET (prefix s @ ''_connection_test_write'') (JStr ''test'') 10] @ rest"
    by auto
  then show ?thesis
    using assms(1) by (simp add: checkRedisConnection_def)
qed

lemma clear_memoryCache: "memoryCache (snd (RedisCache_clear rd s p)) = []"
  by (simp add: RedisCache_clear_def Let_def call_eqs clear_failed_def split: sum.splits)

lemma clear_ignores_memoryCache:
  "fst (RedisCache_clear rd (s\<lparr>memoryCache := m\<rparr>) p) = fst (RedisCache_clear rd s p)"
  by (simp add: RedisCache_clear_def Let_def call_eqs fullPattern_def getFullKey_def
      split: sum.splits)

lemma clear_memory_only:
  "\<not> keysCommandAllowed s \<Longrightarrow> RedisCache_clear rd s p = (True, s\<lparr>memoryCache := []\<rparr>)"
  by (simp add: RedisCache_clear_def Let_def)

lemma clear_attempted:
  "calls (snd (RedisCache_clear rd t p)) \<noteq> calls t \<Longrightarrow>
   (fst (RedisCache_clear rd t p), keysCommandAllowed (snd (RedisCache_clear rd t p))) \<noteq>
     (True, False)"
  by (auto simp: RedisCache_clear_def Let_def call_eqs clear_failed_def
      split: if_splits sum.splits)

text \<open>
  C8. When keysCommandAllowed is false, clear(pattern) returns true, empties the Local
  Tier and changes nothing else: the log of calls to the persistent tier is as before (no
  KEYS, no DEL) and keysCommandAllowed is still false. The return value together with the
  status tells this memory-only clear apart from a clear that went to the persistent tier:
  a clear that issued any persistent call never ends with the pair (true,
  keysCommandAllowed = false).
\<close>

theorem clear_without_keys_permission:
  assumes "\<not> keysCommandAllowed s"
    and "calls (snd (RedisCache_clear rd' t p')) \<noteq> calls t"
  shows "fst (RedisCache_clear rd s p) = True \<and>
         memoryCache (snd (RedisCache_clear rd s p)) = [] \<and>
         calls (snd (RedisCache_clear rd s p)) = calls s \<and>
         \<not> keysCommandAllowed (snd (RedisCache_clear rd s p)) \<and>
         (fst (RedisCache_clear rd' t p'), keysCommandAllowed (snd (RedisCache_clear rd' t p'))) \<noteq>
           (fst (RedisCache_clear rd s p), keysCommandAllowed (snd (RedisCache_clear rd s p)))"
  using clear_memory_only [OF assms(1), of rd p] clear_attempted [OF assms(2)] assms(1)
  by simp

lemma clear_result:
  "fst (RedisCache_clear rd s p) =
     (\<not> (isRedisAvailable s \<and> \<not> isReadOnly s \<and> keysCommandAllowed s \<and>
         (case fst (redis_keys rd (backend s) (fullPattern s p)) of
            Inl e \<Rightarrow> True
          | Inr ks \<Rightarrow>
              ks \<noteq> [] \<and>
              isl (fst (redis_del rd (snd (redis_keys rd (backend s) (fullPattern s p))) ks)))))"
proof -
  have pat: "fullPattern (s\<lparr>memoryCache := []\<rparr>) p = fullPattern s p"
    by (simp add: fullPattern_def getFullKey_def split: option.splits)
  show ?thesis
    by (auto simp: RedisCache_clear_def Let_def call_eqs pat split: sum.splits)
qed

text \<open>
  C9 (as amended). Calling clear twice in succession leaves the Local Tier empty after each
  call, also as counted by getStatus, whatever the persistent tier does in either call.
  The second call returns true unless it goes to the persistent tier (the status after the
  first call is available, writable, with key enumeration permitted) and the client
  rejects its KEYS call, or serves it with a non-empty list and rejects the DEL call: in
  exactly those cases it returns false. What it returns does not depend on what the Local
  Tier held.
\<close>

theorem clear_twice_leaves_local_tier_empty:
  "Map_size (memoryCache (snd (RedisCache_clear rd s p))) = 0 \<and>
   Map_size (memoryCache (snd (RedisCache_clear rd' (snd (RedisCache_clear rd s p)) p'))) = 0 \<and>
   memoryKeysCount (fst (getStatus rd'' now (snd (RedisCache_clear rd s p)))) = 0 \<and>
   memoryKeysCount
     (fst (getStatus rd'' now' (snd (RedisCache_clear rd' (snd (RedisCache_clear rd s p)) p')))) = 0 \<and>
   fst (RedisCache_clear rd' (snd (RedisCache_clear rd s p)) p') =
     (\<not> (isRedisAvailable (snd (RedisCache_clear rd s p)) \<and>
         \<not> isReadOnly (snd (RedisCache_clear rd s p)) \<and>
         keysCommandAllowed (snd (RedisCache_clear rd s p)) \<and>
         (case fst (redis_keys rd' (backend (snd (RedisCache_clear rd s p)))
                      (fullPattern (snd (RedisCache_clear rd s p)) p')) of
            Inl e \<Rightarrow> True
          | Inr ks \<Rightarrow>
              ks \<noteq> [] \<and>
              isl (fst (redis_del rd'
                     (snd (redis_keys rd' (backend (snd (RedisCache_clear rd s p)))
                             (fullPattern (snd (RedisCache_clear rd s p)) p'))) ks))))) \<and>
   fst (RedisCache_clear rd' (snd (RedisCache_clear rd s p)) p') =
     fst (RedisCache_clear rd' ((snd (RedisCache_clear rd s p))\<lparr>memoryCache := m\<rparr>) p')"
  using clear_result [of rd' "snd (RedisCache_clear rd s p)" p']
  by (simp add: clear_memoryCache clear_ignores_memoryCache getStatus_fields Map_size_def)

lemma map_of_Map_delete: "map_of (Map_delete m k) k = None"
  by (induction m) (auto simp: Map_delete_def)

lemma RedisCache_has_local: "Map_has (memoryCache s) k \<Longrightarrow> RedisCache_has rd s k = (True, s)"
  by (simp add: RedisCache_has_def)

text \<open>
  C3 (as amended). The Local Tier of the Tiered Cache stores the bare value, with no expiry
  time, and get and has never read the clock: after set(k, v, ttl), however late the next
  status probe reads the clock, get(k) still returns v and a subsequent has(k) returns
  true; the ttl only goes to the persistent write. The expiry as claimed is that of
  ServerCache (src/lib/cache.ts): after its set(k, v, ttl) at time now, a get at a time
  past now + ttl returns absent and removes the entry, and a subsequent has returns false.
\<close>

theorem local_tier_keeps_value_past_ttl:
  assumes "now + ttl < now'"
  shows "fst (RedisCache_get rd1 (snd (getStatus rd2 now' (snd (RedisCache_set rd3 s k v (Some ttl))))) k) = v \<and>
         fst (RedisCache_has rd1
           (snd (RedisCache_get rd1 (snd (getStatus rd2 now' (snd (RedisCache_set rd3 s k v (Some ttl))))) k))
           k) = True \<and>
         ServerCache_get now' (ServerCache_set now c k v (Some ttl)) k =
           (JNull, Map_delete (ServerCache_set now c k v (Some ttl)) k) \<and>
         \<not> ServerCache_has now' (snd (ServerCache_get now' (ServerCache_set now c k v (Some ttl)) k)) k"
proof -
  let ?s = "snd (getStatus rd2 now' (snd (RedisCache_set rd3 s k v (Some ttl))))"
  have mem: "memoryCache ?s = Map_set (memoryCache s) k v"
    by (simp add: getStatus_fields RedisCache_set_memoryCache)
  have get: "RedisCache_get rd1 ?s k = (v, ?s)"
    by (simp add: RedisCache_get_def mem Map_has_Map_set Map_get_Map_set)
  have has: "RedisCache_has rd1 ?s k = (True, ?s)"
    by (rule RedisCache_has_local) (simp add: mem Map_has_Map_set)
  have sget: "ServerCache_get now' (ServerCache_set now c k v (Some ttl)) k =
           (JNull, Map_delete (ServerCache_set now c k v (Some ttl)) k)"
    using assms by (simp add: ServerCache_get_def ServerCache_set_def map_of_Map_set)
  have shas: "\<not> ServerCache_has now' (Map_delete (ServerCache_set now c k v (Some ttl)) k) k"
    by (simp add: ServerCache_has_def map_of_Map_delete)
  show ?thesis
    using get has sget shas by simp
qed


subsection \<open>The scenarios, evaluated\<close>

lemmas model_defs = new_RedisCache_def checkRedisConnection_def connectionCheckInterval_def
  probe_body_def probe_read_def probe_exists_def probe_keys_def probe_write_def
  probe_write_failed_def connection_failed_def call_eqs noperm_msg_def write_denied_msg_def
  connection_msg_def keys_noperm_msg_def flags_def RedisCache_get_def get_failed_def
  RedisCache_set_def set_body_def serialization_check_def ttl_or_default_def getFullKey_def
  set_failed_def RedisCache_has_def RedisCache_clear_def clear_failed_def fullPattern_def
  getStatus_def count_keys_def Map_has_def Map_get_def Map_size_def Let_def

lemmas scenario_defs = canned_def always_throws_def fails_after_def reads_fail_after_def
  reads_denied_def
  keys_denied_def empty_store_def network_timeout_def noperm_message_def example_cache_def
  fresh_def

lemma cache_tier_down_eq:
  "cache_tier_down =
     \<lparr>prefix = ''monocloud:'', defaultTTL = 86400, isRedisAvailable = True,
      isReadOnly = True, keysCommandAllowed = True, getCommandAllowed = True,
      lastConnectionCheck = 1000000, memoryCache = [], backend = 0,
      calls =
       [GET ''monocloud:_connection_test_readonly'',
        EXISTS ''monocloud:_connection_test_readonly'',
        KEYS ''monocloud:_test_keys_*'',
        SET ''monocloud:_connection_test_write'' (JStr ''test'') 10]\<rparr>"
  by (simp add: cache_tier_down_def model_defs scenario_defs)

lemma cache_tier_went_down_eq:
  "cache_tier_went_down =
     \<lparr>prefix = ''monocloud:'', defaultTTL = 86400, isRedisAvailable = True,
      isReadOnly = False, keysCommandAllowed = True, getCommandAllowed = True,
      lastConnectionCheck = 1000000, memoryCache = [], backend = 0,
      calls =
       [GET ''monocloud:_connection_test_readonly'',
        EXISTS ''monocloud:_connection_test_readonly'',
        KEYS ''monocloud:_test_keys_*'',
        SET ''monocloud:_connection_test_write'' (JStr ''test'') 10,
        DEL [''monocloud:_connection_test_write'']]\<rparr>"
  by (simp add: cache_tier_went_down_def model_defs scenario_defs)

lemma cache_tier_went_read_only_eq:
  "cache_tier_went_read_only =
     \<lparr>prefix = ''monocloud:'', defaultTTL = 86400, isRedisAvailable = True,
      isReadOnly = False, keysCommandAllowed = True, getCommandAllowed = True,
      lastConnectionCheck = 1000000, memoryCache = [], backend = 0,
      calls =
       [GET ''monocloud:_connection_test_readonly'',
        EXISTS ''monocloud:_connection_test_readonly'',
        KEYS ''monocloud:_test_keys_*'',
        SET ''monocloud:_connection_test_write'' (JStr ''test'') 10,
        DEL [''monocloud:_connection_test_write'']]\<rparr>"
  by (simp add: cache_tier_went_read_only_def model_defs scenario_defs)

lemma cache_reads_time_out_eq:
  "cache_reads_time_out =
     \<lparr>prefix = ''monocloud:'', defaultTTL = 86400, isRedisAvailable = True,
      isReadOnly = False, keysCommandAllowed = True, getCommandAllowed = True,
      lastConnectionCheck = 1000000, memoryCache = [], backend = 0,
      calls =
       [GET ''monocloud:_connection_test_readonly'',
        EXISTS ''monocloud:_connection_test_readonly'',
        KEYS ''monocloud:_test_keys_*'',
        SET ''monocloud:_connection_test_write'' (JStr ''test'') 10,
        DEL [''monocloud:_connection_test_write'']]\<rparr>"
  by (simp add: cache_reads_time_out_def model_defs scenario_defs)

lemma cache_tier_goes_down_later_eq:
  "cache_tier_goes_down_later =
     \<lparr>prefix = ''monocloud:'', defaultTTL = 86400, isRedisAvailable = True,
      isReadOnly = False, keysCommandAllowed = True, getCommandAllowed = True,
      lastConnectionCheck = 1000000, memoryCache = [], backend = 1,
      calls =
       [GET ''monocloud:_connection_test_readonly'',
        EXISTS ''monocloud:_connection_test_readonly'',
        KEYS ''monocloud:_test_keys_*'',
        SET ''monocloud:_connection_test_write'' (JStr ''test'') 10,
        DEL [''monocloud:_connection_test_write'']]\<rparr>"
  by (simp add: cache_tier_goes_down_later_def model_defs scenario_defs)

lemma cache_on_empty_store_eq:
  "cache_on_empty_store =
     \<lparr>prefix = ''monocloud:'', defaultTTL = 86400, isRedisAvailable = True,
      isReadOnly = False, keysCommandAllowed = True, getCommandAllowed = True,
      lastConnectionCheck = 1000000, memoryCache = [], backend = (),
      calls =
       [GET ''monocloud:_connection_test_readonly'',
        EXISTS ''monocloud:_connection_test_readonly'',
        KEYS ''monocloud:_test_keys_*'',
        SET ''monocloud:_connection_test_write'' (JStr ''test'') 10,
        DEL [''monocloud:_connection_test_write'']]\<rparr>"
  by (simp add: cache_on_empty_store_def model_defs scenario_defs)

lemma cache_without_keys_eq:
  "cache_without_keys =
     \<lparr>prefix = ''monocloud:'', defaultTTL = 86400, isRedisAvailable = True,
      isReadOnly = False, keysCommandAllowed = False, getCommandAllowed = True,
      lastConnectionCheck = 1000000, memoryCache = [(''repo:a'', JNum 1)], backend = (),
      calls =
       [GET ''monocloud:_connection_test_readonly'',
        EXISTS ''monocloud:_connection_test_readonly'',
        KEYS ''monocloud:_test_keys_*'',
        SET ''monocloud:_connection_test_write'' (JStr ''test'') 10,
        DEL [''monocloud:_connection_test_write''],
        SET ''monocloud:repo:a'' (JNum 1) 60, GET ''monocloud:repo:a'']\<rparr>"
  by (simp add: cache_without_keys_def model_defs scenario_defs)

lemma cache_reads_allowed_eq:
  "cache_reads_allowed =
     \<lparr>prefix = ''monocloud:'', defaultTTL = 86400, isRedisAvailable = True,
      isReadOnly = False, keysCommandAllowed = True, getCommandAllowed = True,
      lastConnectionCheck = 1000000, memoryCache = [], backend = 4,
      calls =
       [GET ''monocloud:_connection_test_readonly'',
        EXISTS ''monocloud:_connection_test_readonly'',
        KEYS ''monocloud:_test_keys_*'',
        SET ''monocloud:_connection_test_write'' (JStr ''test'') 10,
        DEL [''monocloud:_connection_test_write'']]\<rparr>"
  by (simp add: cache_reads_allowed_def model_defs scenario_defs)

lemma cache_reads_refused_eq:
  "cache_reads_refused =
     \<lparr>prefix = ''monocloud:'', defaultTTL = 86400, isRedisAvailable = True,
      isReadOnly = False, keysCommandAllowed = True, getCommandAllowed = False,
      lastConnectionCheck = 1000000, memoryCache = [], backend = 0,
      calls =
       [GET ''monocloud:_connection_test_readonly'',
        EXISTS ''monocloud:_connection_test_readonly'',
        KEYS ''monocloud:_test_keys_*'',
        SET ''monocloud:_connection_test_write'' (JStr ''test'') 10,
        DEL [''monocloud:_connection_test_write''],
        GET ''monocloud:repo:b'']\<rparr>"
  by (simp add: cache_reads_refused_def model_defs scenario_defs)


lemma network_timeout_class:
  "error_with connection_msg network_timeout" "\<not> error_with noperm_msg network_timeout"
  "message_of network_timeout = Inr ''network timeout''" "\<not> noperm_msg ''network timeout''"
  by (simp_all add: network_timeout_def connection_msg_def noperm_msg_def)

lemma noperm_message_class: "write_denied_msg noperm_message"
  by (simp add: noperm_message_def write_denied_msg_def)

subsection \<open>C1: what set returns when the persistent write fails\<close>

text \<open>
  C1, counterexample. The cache was constructed while the tier answered; the tier then
  went down. The persistent write of set is rejected with a network timeout, and set
  returns false although the Local Tier holds the value.
\<close>

theorem set_returns_false_on_write_error:
  "fst (redis_set (fails_after network_timeout) (backend cache_tier_went_down)
          ''monocloud:repo:a'' (JNum 1) 60) = Inl network_timeout \<and>
   fst (RedisCache_set (fails_after network_timeout) cache_tier_went_down
          ''repo:a'' (JNum 1) (Some 60)) = False \<and>
   Map_get (memoryCache (snd (RedisCache_set (fails_after network_timeout) cache_tier_went_down
          ''repo:a'' (JNum 1) (Some 60)))) ''repo:a'' = JNum 1"
  by (simp add: cache_tier_went_down_eq model_defs scenario_defs)

theorem set_reports_persistent_write_witness:
  "RedisCache_set (fails_after network_timeout) cache_tier_down ''repo:a'' (JNum 1) (Some 60) =
     (True, cache_tier_down\<lparr>memoryCache := Map_set (memoryCache cache_tier_down) ''repo:a'' (JNum 1)\<rparr>) \<and>
   fst (RedisCache_set (fails_after network_timeout) cache_tier_went_down
          ''repo:a'' (JNum 1) (Some 60)) = False \<and>
   memoryCache (snd (RedisCache_set (fails_after network_timeout) cache_tier_went_down
          ''repo:a'' (JNum 1) (Some 60))) =
     Map_set (memoryCache cache_tier_went_down) ''repo:a'' (JNum 1)"
proof -
  have h1: "\<not> isRedisAvailable cache_tier_down \<or> isReadOnly cache_tier_down"
    by (simp add: cache_tier_down_eq)
  have h2: "isRedisAvailable cache_tier_went_down" and h3: "\<not> isReadOnly cache_tier_went_down"
    by (simp_all add: cache_tier_went_down_eq)
  have h5: "fst (redis_set (fails_after network_timeout) (backend cache_tier_went_down)
      (getFullKey cache_tier_went_down ''repo:a'') (JNum 1)
      (ttl_or_default cache_tier_went_down (Some 60))) = Inl network_timeout"
    by (simp add: cache_tier_went_down_eq fails_after_def)
  show ?thesis
    using set_reports_persistent_write [where s = cache_tier_down
        and rd = "fails_after network_timeout" and k = "''repo:a''" and v = "JNum 1"
        and ttl = "Some 60"]
      set_reports_persistent_write [where s = cache_tier_went_down
        and rd = "fails_after network_timeout" and k = "''repo:a''" and v = "JNum 1"
        and ttl = "Some 60" and e = network_timeout]
      h1 h2 h3 h5
    by blast
qed

subsection \<open>C3: expiry\<close>

text \<open>
  C3, counterexample. A value is set with a ttl of one second; an hour later (the status
  probe reads the clock at 4600000) get still returns it and has still answers true, on a
  persistent tier that holds nothing.
\<close>

theorem get_returns_value_an_hour_past_ttl:
  "lastConnectionCheck (snd (getStatus empty_store 4600000
      (snd (RedisCache_set empty_store cache_on_empty_store ''repo:a'' (JStr ''graph'') (Some 1))))) =
     4600000 \<and>
   fst (RedisCache_get empty_store (snd (getStatus empty_store 4600000
      (snd (RedisCache_set empty_store cache_on_empty_store ''repo:a'' (JStr ''graph'') (Some 1)))))
      ''repo:a'') = JStr ''graph'' \<and>
   fst (RedisCache_has empty_store (snd (RedisCache_get empty_store (snd (getStatus empty_store 4600000
      (snd (RedisCache_set empty_store cache_on_empty_store ''repo:a'' (JStr ''graph'') (Some 1)))))
      ''repo:a'')) ''repo:a'') = True"
  by (simp add: cache_on_empty_store_eq model_defs scenario_defs)

theorem local_tier_keeps_value_past_ttl_witness:
  "fst (RedisCache_get empty_store (snd (getStatus empty_store 4600000
      (snd (RedisCache_set empty_store cache_on_empty_store ''repo:a'' (JStr ''graph'') (Some 1000)))))
      ''repo:a'') = JStr ''graph'' \<and>
   fst (RedisCache_has empty_store (snd (RedisCache_get empty_store (snd (getStatus empty_store 4600000
      (snd (RedisCache_set empty_store cache_on_empty_store ''repo:a'' (JStr ''graph'') (Some 1000)))))
      ''repo:a'')) ''repo:a'') = True \<and>
   ServerCache_get 4600000 (ServerCache_set 1000000 [] ''repo:a'' (JStr ''graph'') (Some 1000)) ''repo:a'' =
     (JNull, Map_delete (ServerCache_set 1000000 [] ''repo:a'' (JStr ''graph'') (Some 1000)) ''repo:a'') \<and>
   \<not> ServerCache_has 4600000
       (snd (ServerCache_get 4600000
          (ServerCache_set 1000000 [] ''repo:a'' (JStr ''graph'') (Some 1000)) ''repo:a'')) ''repo:a''"
proof -
  have h: "(1000000::int) + 1000 < 4600000"
    by simp
  show ?thesis
    by (rule local_tier_keeps_value_past_ttl [OF h])
qed

subsection \<open>C4: read errors in get\<close>

text \<open>
  C4, evaluated at the failing input. Every point read of the tier is rejected with a
  network timeout, from the start; every other call is served. A get returns absent and
  clears the available flag, and a getStatus within the probe interval reports
  available = false. A getStatus one minute after the constructor's probe runs the probe
  again; the sentinel read times out like every other read, the read step of the probe
  takes that for a permitted read, and the status reports available = true.
\<close>

theorem status_available_while_reads_time_out:
  "fst (RedisCache_get (reads_fail_after network_timeout)
          (new_RedisCache (reads_fail_after network_timeout) 1000000 0) ''repo:a'') = JNull \<and>
   \<not> isRedisAvailable (snd (RedisCache_get (reads_fail_after network_timeout)
          (new_RedisCache (reads_fail_after network_timeout) 1000000 0) ''repo:a'')) \<and>
   \<not> available (fst (getStatus (reads_fail_after network_timeout) 1000500
          (snd (RedisCache_get (reads_fail_after network_timeout)
                  (new_RedisCache (reads_fail_after network_timeout) 1000000 0) ''repo:a'')))) \<and>
   available (fst (getStatus (reads_fail_after network_timeout) 1060000
          (snd (RedisCache_get (reads_fail_after network_timeout)
                  (new_RedisCache (reads_fail_after network_timeout) 1000000 0) ''repo:a'')))) \<and>
   fst (redis_get (reads_fail_after network_timeout)
          (backend (snd (RedisCache_get (reads_fail_after network_timeout)
                  (new_RedisCache (reads_fail_after network_timeout) 1000000 0) ''repo:a'')))
          ''monocloud:_connection_test_readonly'') = Inl network_timeout"
  by (simp add: model_defs scenario_defs)

theorem get_swallows_read_errors_witness:
  "fst (RedisCache_get (fails_after network_timeout) cache_tier_went_down ''repo:a'') = JNull \<and>
   \<not> isRedisAvailable
       (snd (RedisCache_get (fails_after network_timeout) cache_tier_went_down ''repo:a'')) \<and>
   \<not> available (fst (getStatus (fails_after network_timeout) 1000500
       (snd (RedisCache_get (fails_after network_timeout) cache_tier_went_down ''repo:a''))))"
proof -
  have h1: "\<not> Map_has (memoryCache cache_tier_went_down) ''repo:a''"
    and h2: "isRedisAvailable cache_tier_went_down"
    and h3: "getCommandAllowed cache_tier_went_down"
    by (simp_all add: cache_tier_went_down_eq Map_has_def)
  have h4: "fst (redis_get (fails_after network_timeout) (backend cache_tier_went_down)
      (getFullKey cache_tier_went_down ''repo:a'')) = Inl network_timeout"
    by (simp add: cache_tier_went_down_eq fails_after_def)
  have h5: "1000500 - lastConnectionCheck cache_tier_went_down < connectionCheckInterval"
    by (simp add: cache_tier_went_down_eq connectionCheckInterval_def)
  show ?thesis
    using get_swallows_read_errors [OF h1 h2 h3 h4,
        where now = 1000500 and rd' = "fails_after network_timeout"]
      network_timeout_class(1,2) h5
    by blast
qed


subsection \<open>C5: the flags of an unavailable tier\<close>

text \<open>
  C5, counterexample. First, a get: the constructor's probe finds the tier readable and
  writable, the next point read times out, and the status after that get, asked within the
  probe interval, is available = false with readOnly = false and both command flags true.
  Second, a probe: on a tier that refuses point reads and serves every other call, the
  constructor's probe ends with available = false, readOnly = false, keysCommandAllowed =
  true, getCommandAllowed = false.
\<close>

theorem unavailable_with_capabilities_granted:
  "fst (getStatus (reads_fail_after network_timeout) 1000500
      (snd (RedisCache_get (reads_fail_after network_timeout) cache_reads_time_out ''repo:a''))) =
     \<lparr>available = False, readOnly = False, keysCount = 0, memoryKeysCount = 0,
      status_keysCommandAllowed = True, status_getCommandAllowed = True\<rparr> \<and>
   flags (new_RedisCache reads_denied 1000000 ()) = (False, False, True, False)"
  by (simp add: cache_reads_time_out_eq model_defs scenario_defs)

theorem available_flag_after_probe_and_get_witness:
  "isRedisAvailable (snd (checkRedisConnection reads_denied 1000000 example_cache)) =
     getCommandAllowed (snd (checkRedisConnection reads_denied 1000000 example_cache)) \<and>
   \<not> isRedisAvailable (snd (checkRedisConnection reads_denied 1000000 example_cache)) \<and>
   flags (snd (checkRedisConnection reads_denied 1000000 example_cache)) =
     (False, False, True, False) \<and>
   flags (snd (RedisCache_get (reads_fail_after network_timeout) cache_reads_time_out ''repo:a'')) =
     (False, isReadOnly cache_reads_time_out, keysCommandAllowed cache_reads_time_out, True)"
proof -
  have h1: "\<not> 1000000 - lastConnectionCheck example_cache < connectionCheckInterval"
    by (simp add: example_cache_def fresh_def connectionCheckInterval_def)
  have h2: "\<not> Map_has (memoryCache cache_reads_time_out) ''repo:a''"
    and h3: "isRedisAvailable cache_reads_time_out"
    and h4: "getCommandAllowed cache_reads_time_out"
    by (simp_all add: cache_reads_time_out_eq Map_has_def)
  have h5: "fst (redis_get (reads_fail_after network_timeout) (backend cache_reads_time_out)
      (getFullKey cache_reads_time_out ''repo:a'')) = Inl network_timeout"
    by (simp add: cache_reads_time_out_eq reads_fail_after_def)
  note inst = available_flag_after_probe_and_get [where now = 1000000 and s = example_cache
      and rd = reads_denied and t = cache_reads_time_out and k = "''repo:a''"
      and rd' = "reads_fail_after network_timeout" and e = network_timeout]
  have eq: "isRedisAvailable (snd (checkRedisConnection reads_denied 1000000 example_cache)) =
     getCommandAllowed (snd (checkRedisConnection reads_denied 1000000 example_cache))"
    using inst h1 by blast
  have fl: "flags (snd (checkRedisConnection reads_denied 1000000 example_cache)) =
     (False, False, True, False)"
    using inst by blast
  have get: "flags (snd (RedisCache_get (reads_fail_after network_timeout) cache_reads_time_out
      ''repo:a'')) =
     (False, isReadOnly cache_reads_time_out, keysCommandAllowed cache_reads_time_out, True)"
    using inst h2 h3 h4 h5 network_timeout_class(1,2) by blast
  have "\<not> isRedisAvailable (snd (checkRedisConnection reads_denied 1000000 example_cache))"
    using fl by (simp add: flags_def)
  then show ?thesis
    using eq fl get by blast
qed

subsection \<open>C6: a refused write\<close>

theorem set_permission_error_marks_read_only_witness:
  "(isReadOnly (snd (RedisCache_set (fails_after (ErrorObj noperm_message))
      cache_tier_went_read_only ''repo:a'' (JNum 1) (Some 60))) \<and>
    readOnly (fst (getStatus (fails_after (ErrorObj noperm_message)) 1000500
      (snd (RedisCache_set (fails_after (ErrorObj noperm_message))
         cache_tier_went_read_only ''repo:a'' (JNum 1) (Some 60)))))) \<and>
   (isReadOnly (snd (RedisCache_set (always_throws (ErrorObj noperm_message))
      example_cache ''repo:a'' (JNum 1) (Some 60))) \<and>
    readOnly (fst (getStatus (always_throws (ErrorObj noperm_message)) 1060000
      (snd (RedisCache_set (always_throws (ErrorObj noperm_message))
         example_cache ''repo:a'' (JNum 1) (Some 60))))))"
proof -
  have h1: "isRedisAvailable cache_tier_went_read_only"
    and h2: "\<not> isReadOnly cache_tier_went_read_only"
    by (simp_all add: cache_tier_went_read_only_eq)
  have h3: "JNum 1 \<noteq> JUndefined"
    by simp
  have h4: "fst (redis_set (fails_after (ErrorObj noperm_message))
      (backend cache_tier_went_read_only) (getFullKey cache_tier_went_read_only ''repo:a'')
      (JNum 1) (ttl_or_default cache_tier_went_read_only (Some 60))) = Inl (ErrorObj noperm_message)"
    by (simp add: cache_tier_went_read_only_eq fails_after_def)
  have h6: "1000500 - lastConnectionCheck cache_tier_went_read_only < connectionCheckInterval \<or>
      (\<forall>b key val ex. \<exists>t. fst (redis_set (fails_after (ErrorObj noperm_message)) b key val ex) = Inl t)"
    by (simp add: cache_tier_went_read_only_eq connectionCheckInterval_def)
  have g1: "isRedisAvailable example_cache" and g2: "\<not> isReadOnly example_cache"
    by (simp_all add: example_cache_def fresh_def)
  have g4: "fst (redis_set (always_throws (ErrorObj noperm_message))
      (backend example_cache) (getFullKey example_cache ''repo:a'')
      (JNum 1) (ttl_or_default example_cache (Some 60))) = Inl (ErrorObj noperm_message)"
    by (simp add: always_throws_def canned_def)
  have g6: "1060000 - lastConnectionCheck example_cache < connectionCheckInterval \<or>
      (\<forall>b key val ex. \<exists>t. fst (redis_set (always_throws (ErrorObj noperm_message)) b key val ex) = Inl t)"
    by (simp add: always_throws_def canned_def)
  show ?thesis
    using set_permission_error_marks_read_only [OF h1 h2 h3 h4 noperm_message_class h6]
      set_permission_error_marks_read_only [OF g1 g2 h3 g4 noperm_message_class g6]
    by blast
qed

subsection \<open>C7: a failed sentinel read in the probe\<close>

text \<open>
  C7, evaluated at the failing input. On a tier where every call times out, the sentinel
  read of the first probe fails with a connection error that is not a permission error.
  The status after the probe has available, getCommandAllowed and keysCommandAllowed all
  true (the flags are listed as available, readOnly, keysCommandAllowed,
  getCommandAllowed), and the existence check, the key enumeration and the test write were
  issued after the read: the probe neither marks the tier unavailable nor skips its
  remaining steps.
\<close>

theorem probe_stays_available_on_timeout:
  "fst (redis_get (fails_after network_timeout) 0 ''monocloud:_connection_test_readonly'') =
     Inl network_timeout \<and>
   error_with connection_msg network_timeout \<and> \<not> error_with noperm_msg network_timeout \<and>
   flags (new_RedisCache (fails_after network_timeout) 1000000 0) = (True, True, True, True) \<and>
   calls (new_RedisCache (fails_after network_timeout) 1000000 0) =
     [GET ''monocloud:_connection_test_readonly'', EXISTS ''monocloud:_connection_test_readonly'',
      KEYS ''monocloud:_test_keys_*'',
      SET ''monocloud:_connection_test_write'' (JStr ''test'') 10]"
proof -
  have "fst (redis_get (fails_after network_timeout) 0 ''monocloud:_connection_test_readonly'') =
      Inl network_timeout"
    by (simp add: fails_after_def)
  moreover have "flags (new_RedisCache (fails_after network_timeout) 1000000 0) =
      (True, True, True, True)"
    by (simp add: cache_tier_down_eq [unfolded cache_tier_down_def] flags_def)
  moreover have "calls (new_RedisCache (fails_after network_timeout) 1000000 0) =
     [GET ''monocloud:_connection_test_readonly'', EXISTS ''monocloud:_connection_test_readonly'',
      KEYS ''monocloud:_test_keys_*'',
      SET ''monocloud:_connection_test_write'' (JStr ''test'') 10]"
    by (simp add: cache_tier_down_eq [unfolded cache_tier_down_def])
  ultimately show ?thesis
    using network_timeout_class(1,2) by blast
qed

theorem probe_read_failure_keeps_available_witness:
  "isRedisAvailable (snd (checkRedisConnection (always_throws network_timeout) 1000000 example_cache)) \<and>
   getCommandAllowed (snd (checkRedisConnection (always_throws network_timeout) 1000000 example_cache)) \<and>
   (\<exists>rest. calls (snd (checkRedisConnection (always_throws network_timeout) 1000000 example_cache)) =
      calls example_cache @
        [GET (prefix example_cache @ ''_connection_test_readonly''),
         EXISTS (prefix example_cache @ ''_connection_test_readonly''),
         KEYS (prefix example_cache @ ''_test_keys_*''),
         SET (prefix example_cache @ ''_connection_test_write'') (JStr ''test'') 10] @ rest)"
proof -
  have h1: "\<not> 1000000 - lastConnectionCheck example_cache < connectionCheckInterval"
    by (simp add: example_cache_def fresh_def connectionCheckInterval_def)
  have h2: "fst (redis_get (always_throws network_timeout) (backend example_cache)
      (prefix example_cache @ ''_connection_test_readonly'')) = Inl network_timeout"
    by (simp add: always_throws_def canned_def)
  have h5: "rejects_with_values (always_throws network_timeout)"
    by (simp add: rejects_with_values_def always_throws_def canned_def network_timeout_def)
  show ?thesis
    by (rule probe_read_failure_keeps_available
        [OF h1 h2 network_timeout_class(3) network_timeout_class(4) h5])
qed

subsection \<open>C8: clear without the KEYS permission\<close>

theorem clear_without_keys_permission_witness:
  "fst (RedisCache_clear keys_denied cache_without_keys (Some ''repo:*'')) = True \<and>
   memoryCache (snd (RedisCache_clear keys_denied cache_without_keys (Some ''repo:*''))) = [] \<and>
   calls (snd (RedisCache_clear keys_denied cache_without_keys (Some ''repo:*''))) =
     calls cache_without_keys \<and>
   \<not> keysCommandAllowed (snd (RedisCache_clear keys_denied cache_without_keys (Some ''repo:*''))) \<and>
   (fst (RedisCache_clear empty_store cache_on_empty_store None),
    keysCommandAllowed (snd (RedisCache_clear empty_store cache_on_empty_store None))) \<noteq>
   (fst (RedisCache_clear keys_denied cache_without_keys (Some ''repo:*'')),
    keysCommandAllowed (snd (RedisCache_clear keys_denied cache_without_keys (Some ''repo:*''))))"
proof -
  have h1: "\<not> keysCommandAllowed cache_without_keys"
    by (simp add: cache_without_keys_eq)
  have h2: "calls (snd (RedisCache_clear empty_store cache_on_empty_store None)) \<noteq>
      calls cache_on_empty_store"
    by (simp add: cache_on_empty_store_eq model_defs scenario_defs)
  show ?thesis
    by (rule clear_without_keys_permission [OF h1 h2])
qed

subsection \<open>C10: the verification read of set\<close>

theorem set_verification_read_witness:
  "RedisCache_set (reads_fail_after (ErrorObj noperm_message)) cache_reads_allowed
      ''repo:a'' (JNum 1) (Some 60) =
     (False, cache_reads_allowed\<lparr>memoryCache := Map_set (memoryCache cache_reads_allowed) ''repo:a'' (JNum 1),
        backend := 3,
        calls := calls cache_reads_allowed @
          [SET (getFullKey cache_reads_allowed ''repo:a'') (JNum 1)
             (ttl_or_default cache_reads_allowed (Some 60)),
           GET (getFullKey cache_reads_allowed ''repo:a'')]\<rparr>) \<and>
   RedisCache_set (reads_fail_after (ErrorObj noperm_message)) cache_reads_refused
      ''repo:a'' (JNum 1) (Some 60) =
     (True, cache_reads_refused\<lparr>memoryCache := Map_set (memoryCache cache_reads_refused) ''repo:a'' (JNum 1),
        backend := 0,
        calls := calls cache_reads_refused @
          [SET (getFullKey cache_reads_refused ''repo:a'') (JNum 1)
             (ttl_or_default cache_reads_refused (Some 60))]\<rparr>)"
proof -
  have h1: "isRedisAvailable cache_reads_allowed" and h2: "\<not> isReadOnly cache_reads_allowed"
    and h4: "getCommandAllowed cache_reads_allowed"
    by (simp_all add: cache_reads_allowed_eq)
  have h3: "JNum 1 \<noteq> JUndefined"
    by simp
  have h5: "redis_set (reads_fail_after (ErrorObj noperm_message)) (backend cache_reads_allowed)
      (getFullKey cache_reads_allowed ''repo:a'') (JNum 1)
      (ttl_or_default cache_reads_allowed (Some 60)) = (Inr (), 4)"
    by (simp add: cache_reads_allowed_eq reads_fail_after_def)
  have h6: "redis_get (reads_fail_after (ErrorObj noperm_message)) 4
      (getFullKey cache_reads_allowed ''repo:a'') = (Inr JNull, 3)"
    by (simp add: reads_fail_after_def)
  have h7: "\<not> truthy JNull"
    by simp
  have h8: "isRedisAvailable cache_reads_refused" and h9: "\<not> isReadOnly cache_reads_refused"
    and h10: "\<not> getCommandAllowed cache_reads_refused"
    by (simp_all add: cache_reads_refused_eq)
  have h11: "redis_set (reads_fail_after (ErrorObj noperm_message)) (backend cache_reads_refused)
      (getFullKey cache_reads_refused ''repo:a'') (JNum 1)
      (ttl_or_default cache_reads_refused (Some 60)) = (Inr (), 0)"
    by (simp add: cache_reads_refused_eq reads_fail_after_def)
  show ?thesis
    using set_verification_read [where s = cache_reads_allowed
        and rd = "reads_fail_after (ErrorObj noperm_message)" and k = "''repo:a''"
        and v = "JNum 1" and ttl = "Some 60" and ?b1.0 = 4 and d = JNull and ?b2.0 = 3]
      set_verification_read [where s = cache_reads_refused
        and rd = "reads_fail_after (ErrorObj noperm_message)" and k = "''repo:a''"
        and v = "JNum 1" and ttl = "Some 60" and ?b3.0 = 0]
      h1 h2 h3 h4 h5 h6 h7 h8 h9 h10 h11
    by blast
qed

subsection \<open>C9: clear, twice\<close>

text \<open>
  C9, counterexample. The tier serves the probe and one more call, then goes down. The
  first clear is served an empty key list and returns true; the KEYS call of the second
  clear is rejected with a network timeout, and the second clear returns false. The Local
  Tier is empty after both.
\<close>

theorem second_clear_returns_false:
  "fst (RedisCache_clear (fails_after network_timeout) cache_tier_goes_down_later None) = True \<and>
   fst (redis_keys (fails_after network_timeout)
          (backend (snd (RedisCache_clear (fails_after network_timeout)
                           cache_tier_goes_down_later None)))
          ''monocloud:*'') = Inl network_timeout \<and>
   fst (RedisCache_clear (fails_after network_timeout)
          (snd (RedisCache_clear (fails_after network_timeout) cache_tier_goes_down_later None))
          None) = False \<and>
   memoryCache (snd (RedisCache_clear (fails_after network_timeout)
          (snd (RedisCache_clear (fails_after network_timeout) cache_tier_goes_down_later None))
          None)) = []"
  by (simp add: cache_tier_goes_down_later_eq model_defs scenario_defs)

end
